theory Spec2Isabelle
  imports Complex_Main "HOL-Library.Word"
begin

section \<open>Values exchanged with the browser and with the transcription service\<close>

text \<open>
  The bridge of \<^verbatim>\<open>app.py\<close> handles values produced by \<^verbatim>\<open>json.loads\<close> and by the
  Socket.IO layer: \<^verbatim>\<open>None\<close>, booleans, integers, floats, strings, lists and dictionaries.
  A dictionary is an association list read with \<open>map_of\<close>. A float is represented by its
  exact value (NaN and the infinities are outside the model).
\<close>

datatype json =
    JNull
  | JBool bool
  | JInt int
  | JFloat real
  | JStr string
  | JArr "json list"
  | JObj "(string \<times> json) list"

type_synonym bytes = "8 word list"

text \<open>Exceptions of the source, each carrying the text of \<^verbatim>\<open>str(e)\<close>.\<close>

datatype py_error =
    JSONDecodeError string
  | AttributeError string
  | TypeError string
  | KeyError string
  | LibraryError string

fun str_of_error :: "py_error \<Rightarrow> string" where
  "str_of_error (JSONDecodeError m) = m"
| "str_of_error (AttributeError m) = m"
| "str_of_error (TypeError m) = m"
| "str_of_error (KeyError m) = m"
| "str_of_error (LibraryError m) = m"

definition bindE :: "py_error + 'a \<Rightarrow> ('a \<Rightarrow> py_error + 'b) \<Rightarrow> py_error + 'b" where
  "bindE m f = (case m of Inl e \<Rightarrow> Inl e | Inr x \<Rightarrow> f x)"

text \<open>Python's truth value of an object, as used by \<^verbatim>\<open>if text:\<close> and \<^verbatim>\<open>and\<close>.\<close>

fun truthy :: "json \<Rightarrow> bool" where
  "truthy JNull = False"
| "truthy (JBool b) = b"
| "truthy (JInt i) = (i \<noteq> 0)"
| "truthy (JFloat r) = (r \<noteq> 0)"
| "truthy (JStr s) = (s \<noteq> [])"
| "truthy (JArr xs) = (xs \<noteq> [])"
| "truthy (JObj kvs) = (kvs \<noteq> [])"

text \<open>The comparison \<^verbatim>\<open>speaker == 0\<close>: numbers compare by value and \<^verbatim>\<open>False == 0\<close> holds.\<close>

fun eq_zero :: "json \<Rightarrow> bool" where
  "eq_zero (JInt i) = (i = 0)"
| "eq_zero (JFloat r) = (r = 0)"
| "eq_zero (JBool b) = (\<not> b)"
| "eq_zero JNull = False"
| "eq_zero (JStr s) = False"
| "eq_zero (JArr xs) = False"
| "eq_zero (JObj kvs) = False"

fun py_type :: "json \<Rightarrow> string" where
  "py_type JNull = ''NoneType''"
| "py_type (JBool b) = ''bool''"
| "py_type (JInt i) = ''int''"
| "py_type (JFloat r) = ''float''"
| "py_type (JStr s) = ''str''"
| "py_type (JArr xs) = ''list''"
| "py_type (JObj kvs) = ''dict''"

definition quoted :: "string \<Rightarrow> string" where
  "quoted s = [CHR 0x27] @ s @ [CHR 0x27]"

text \<open>\<^verbatim>\<open>d.get(k, default)\<close> on a dictionary.\<close>

definition dict_get :: "(string \<times> json) list \<Rightarrow> string \<Rightarrow> json \<Rightarrow> json" where
  "dict_get d k dflt = (case map_of d k of None \<Rightarrow> dflt | Some v \<Rightarrow> v)"

text \<open>
  \<^verbatim>\<open>v.get(k, default)\<close> on an arbitrary parsed value: only a dictionary has the method,
  anything else raises \<^verbatim>\<open>AttributeError\<close>.
\<close>

definition py_get :: "json \<Rightarrow> string \<Rightarrow> json \<Rightarrow> py_error + json" where
  "py_get v k dflt =
     (case v of
        JObj d \<Rightarrow> Inr (dict_get d k dflt)
      | _ \<Rightarrow> Inl (AttributeError (quoted (py_type v) @ '' object has no attribute '' @ quoted ''get'')))"

text \<open>\<^verbatim>\<open>len(v)\<close>: defined on strings, lists and dictionaries.\<close>

definition py_len :: "json \<Rightarrow> py_error + nat" where
  "py_len v =
     (case v of
        JStr s \<Rightarrow> Inr (length s)
      | JArr xs \<Rightarrow> Inr (length xs)
      | JObj kvs \<Rightarrow> Inr (length kvs)
      | _ \<Rightarrow> Inl (TypeError (''object of type '' @ quoted (py_type v) @ '' has no len()'')))"

text \<open>\<^verbatim>\<open>str(n)\<close> of a non-negative integer (an HTTP status code).\<close>

definition digit_char :: "nat \<Rightarrow> char" where
  "digit_char d = ''0123456789'' ! d"

function str_nat :: "nat \<Rightarrow> string" where
  "str_nat n = (if n < 10 then [digit_char n] else str_nat (n div 10) @ [digit_char (n mod 10)])"
  by pat_completeness auto
termination
  by (relation "measure id") auto

declare str_nat.simps [simp del]

section \<open>The state of the server\<close>

type_synonym sid = string
type_synonym wsid = nat

text \<open>The dictionary stored under \<^verbatim>\<open>'config'\<close> by \<^verbatim>\<open>handle_start_stream\<close>.\<close>

record session_config =
  speaker_name :: json
  partial_results :: json
  languages :: json
  code_switching :: json
  custom_vocabulary :: json

text \<open>
  One value of \<^verbatim>\<open>active_sessions\<close>: a dictionary whose only keys are \<^verbatim>\<open>'config'\<close> and
  \<^verbatim>\<open>'ws'\<close>, each of which may be missing.
\<close>

record session =
  config :: "session_config option"
  ws :: "wsid option"

text \<open>
  A \<^verbatim>\<open>websocket.WebSocketApp\<close> object. The class belongs to the websocket-client
  library; the model keeps what the repository reads and calls: the URL it was created
  with, the \<^verbatim>\<open>client_sid\<close> its callbacks close over, the attribute \<^verbatim>\<open>sock\<close>
  (\<open>None\<close> when \<^verbatim>\<open>ws.sock\<close> is \<^verbatim>\<open>None\<close>, \<open>Some c\<close> when \<^verbatim>\<open>ws.sock.connected\<close> is \<open>c\<close>)
  and the binary frames written with \<^verbatim>\<open>ws.send(..., opcode=0x2)\<close>.
\<close>

record websocket_app =
  url :: json
  client :: sid
  sock :: "bool option"
  sent :: "bytes list"

text \<open>One call of \<^verbatim>\<open>emit\<close> / \<^verbatim>\<open>socketio.emit\<close>: event name, payload and receiving client.\<close>

record emission =
  event :: string
  payload :: json
  room :: sid

text \<open>
  What the \<^verbatim>\<open>print\<close> calls write, one constructor per message with the values it
  interpolates (the separator lines of \<^verbatim>\<open>'=' * 50\<close> are left out).
\<close>

datatype log_line =
    LogClientConnected sid
  | LogClientDisconnected sid
  | LogDisconnectError string
  | LogStartStream sid
  | LogConfig json json json json
  | LogCreatingSession
  | LogSessionCreated json
  | LogHTTPError string
  | LogHTTPResponse string
  | LogSessionError string
  | LogTranscript json json json
  | LogParseError string
  | LogOnMessageError string
  | LogWebSocketError string
  | LogWebSocketClosed json json
  | LogConnected
  | LogSendError string
  | LogNoActiveSession sid

text \<open>The arguments handed to the thread that runs \<^verbatim>\<open>start_gladia_session\<close>.\<close>

record thread_args =
  t_client :: sid
  t_partial_results :: json
  t_languages :: json
  t_code_switching :: json
  t_custom_vocabulary :: json

record world =
  active_sessions :: "sid \<rightharpoonup> session"
  sockets :: "websocket_app list"
  outbox :: "emission list"
  stdout :: "log_line list"
  threads :: "thread_args list"
  posted :: "json list"

definition print :: "log_line \<Rightarrow> world \<Rightarrow> world" where
  "print l w = w\<lparr>stdout := stdout w @ [l]\<rparr>"

definition emit :: "string \<Rightarrow> json \<Rightarrow> sid \<Rightarrow> world \<Rightarrow> world" where
  "emit ev p r w = w\<lparr>outbox := outbox w @ [\<lparr>event = ev, payload = p, room = r\<rparr>]\<rparr>"

definition initial_world :: world where
  "initial_world =
     \<lparr>active_sessions = Map.empty, sockets = [], outbox = [], stdout = [], threads = [], posted = []\<rparr>"

text \<open>The emissions made between two states of the server.\<close>

definition emitted :: "world \<Rightarrow> world \<Rightarrow> emission list" where
  "emitted w w' = drop (length (outbox w)) (outbox w')"

section \<open>Inbound frames: \<^verbatim>\<open>on_message\<close> of \<^verbatim>\<open>connect_to_gladia_websocket\<close>\<close>

text \<open>
  \<^verbatim>\<open>json.loads\<close> is a parameter: \<open>Inl m\<close> is a \<^verbatim>\<open>JSONDecodeError\<close> with text \<open>m\<close>,
  \<open>Inr v\<close> the parsed value. The body of the \<^verbatim>\<open>try\<close> block comes first, then the
  handler with its two \<^verbatim>\<open>except\<close> clauses.
\<close>

definition on_message_body :: "(string \<Rightarrow> string + json) \<Rightarrow> sid \<Rightarrow> world \<Rightarrow> string \<Rightarrow> py_error + world" where
  "on_message_body loads client_sid w message =
     (case loads message of
        Inl m \<Rightarrow> Inl (JSONDecodeError m)
      | Inr data \<Rightarrow>
          bindE (py_get data ''type'' JNull) (\<lambda>ty.
          if ty = JStr ''transcript'' then
            bindE (py_get data ''data'' (JObj [])) (\<lambda>d1.
            bindE (py_get d1 ''utterance'' (JObj [])) (\<lambda>utterance.
            bindE (py_get utterance ''speaker'' (JInt 0)) (\<lambda>speaker.
            bindE (py_get utterance ''text'' (JStr [])) (\<lambda>text.
            bindE (py_get data ''data'' (JObj [])) (\<lambda>d2.
            bindE (py_get d2 ''is_final'' (JBool False)) (\<lambda>is_final.
            bindE (py_get utterance ''start'' JNull) (\<lambda>start_time.
            bindE (py_get utterance ''end'' JNull) (\<lambda>end_time.
            if truthy text then
              let w1 = print (LogTranscript speaker text is_final) w;
                  display_name =
                    (case active_sessions w1 client_sid of
                       None \<Rightarrow> JNull
                     | Some entry \<Rightarrow>
                         let stored_name =
                               (case config entry of
                                  None \<Rightarrow> JStr []
                                | Some cfg \<Rightarrow> speaker_name cfg)
                         in if eq_zero speaker \<and> truthy stored_name then stored_name else JNull)
              in Inr (emit ''transcript''
                        (JObj [(''speaker'', speaker),
                               (''text'', text),
                               (''is_final'', is_final),
                               (''speaker_name'', display_name),
                               (''timestamp'', start_time),
                               (''end_time'', end_time)])
                        client_sid w1)
            else Inr w))))))))
          else Inr w))"

definition on_message :: "(string \<Rightarrow> string + json) \<Rightarrow> sid \<Rightarrow> world \<Rightarrow> string \<Rightarrow> world" where
  "on_message loads client_sid w message =
     (case on_message_body loads client_sid w message of
        Inr w' \<Rightarrow> w'
      | Inl (JSONDecodeError m) \<Rightarrow> print (LogParseError m) w
      | Inl e \<Rightarrow> print (LogOnMessageError (str_of_error e)) w)"

text \<open>The other callbacks of the same connection.\<close>

definition on_error :: "sid \<Rightarrow> world \<Rightarrow> string \<Rightarrow> world" where
  "on_error client_sid w error =
     emit ''error'' (JObj [(''message'', JStr error)]) client_sid (print (LogWebSocketError error) w)"

definition on_close :: "sid \<Rightarrow> world \<Rightarrow> json \<Rightarrow> json \<Rightarrow> world" where
  "on_close client_sid w close_status_code close_msg =
     (let w1 = print (LogWebSocketClosed close_status_code close_msg) w
      in if client_sid \<in> dom (active_sessions w1)
         then w1\<lparr>active_sessions := (active_sessions w1)(client_sid := None)\<rparr>
         else w1)"

definition on_open :: "world \<Rightarrow> world" where
  "on_open w = print LogConnected w"

text \<open>The event-forward path of one connection: its inbound frames, handled in order.\<close>

fun forward_frames :: "(string \<Rightarrow> string + json) \<Rightarrow> sid \<Rightarrow> world \<Rightarrow> string list \<Rightarrow> world" where
  "forward_frames loads client_sid w [] = w"
| "forward_frames loads client_sid w (m # ms) =
     forward_frames loads client_sid (on_message loads client_sid w m) ms"

section \<open>Client commands\<close>

text \<open>\<^verbatim>\<open>handle_connect\<close> only prints.\<close>

definition handle_connect :: "sid \<Rightarrow> world \<Rightarrow> world" where
  "handle_connect client_sid w = print (LogClientConnected client_sid) w"

text \<open>
  \<^verbatim>\<open>ws.close()\<close> of the library: the socket is closed and \<^verbatim>\<open>ws.sock\<close> becomes \<^verbatim>\<open>None\<close>.
  An index outside the store does not occur (an object reference is always valid); the
  store is then left as it is.
\<close>

definition close_ws :: "wsid \<Rightarrow> world \<Rightarrow> world" where
  "close_ws i w =
     (if i < length (sockets w)
      then w\<lparr>sockets := (sockets w)[i := (sockets w ! i)\<lparr>sock := None\<rparr>]\<rparr>
      else w)"

text \<open>
  \<^verbatim>\<open>handle_disconnect\<close>: the whole body is inside one \<^verbatim>\<open>try\<close>, so an exception of
  \<^verbatim>\<open>ws.close()\<close> (\<open>close_exc = Some m\<close>) skips the \<^verbatim>\<open>del\<close> and is printed.
\<close>

definition handle_disconnect :: "sid \<Rightarrow> string option \<Rightarrow> world \<Rightarrow> world" where
  "handle_disconnect client_sid close_exc w =
     (let w1 = print (LogClientDisconnected client_sid) w
      in case active_sessions w1 client_sid of
           None \<Rightarrow> w1
         | Some session_data \<Rightarrow>
             (case ws session_data of
                None \<Rightarrow> w1\<lparr>active_sessions := (active_sessions w1)(client_sid := None)\<rparr>
              | Some i \<Rightarrow>
                  (case close_exc of
                     Some m \<Rightarrow> print (LogDisconnectError m) w1
                   | None \<Rightarrow>
                       (let w2 = close_ws i w1
                        in w2\<lparr>active_sessions := (active_sessions w2)(client_sid := None)\<rparr>))))"

text \<open>
  \<^verbatim>\<open>handle_start_stream\<close>. The argument is \<^verbatim>\<open>Optional[Dict[str, Any]]\<close>. The thread it
  starts is recorded in \<open>threads\<close> with the arguments it was given and runs later
  (\<open>start_gladia_session\<close> below).
\<close>

definition handle_start_stream :: "sid \<Rightarrow> (string \<times> json) list option \<Rightarrow> world \<Rightarrow> world" where
  "handle_start_stream client_sid config_arg w =
     (let w1 = print (LogStartStream client_sid) w;
          cfg = (case config_arg of None \<Rightarrow> [] | Some c \<Rightarrow> c);
          speaker_name_v = dict_get cfg ''speaker_name'' (JStr []);
          partial_results_v = dict_get cfg ''partial_results'' (JBool True);
          languages_v = dict_get cfg ''languages'' (JArr []);
          code_switching_v = dict_get cfg ''code_switching'' (JBool False);
          custom_vocabulary_v = dict_get cfg ''custom_vocabulary'' (JArr []);
          w2 = print (LogConfig speaker_name_v partial_results_v languages_v code_switching_v) w1;
          entry = (case active_sessions w2 client_sid of
                     None \<Rightarrow> \<lparr>config = None, ws = None\<rparr>
                   | Some e \<Rightarrow> e);
          w3 = w2\<lparr>active_sessions := (active_sessions w2)(client_sid \<mapsto>
                  entry\<lparr>config := Some \<lparr>speaker_name = speaker_name_v,
                                          partial_results = partial_results_v,
                                          languages = languages_v,
                                          code_switching = code_switching_v,
                                          custom_vocabulary = custom_vocabulary_v\<rparr>\<rparr>)\<rparr>;
          w4 = w3\<lparr>threads := threads w3 @
                  [\<lparr>t_client = client_sid,
                    t_partial_results = partial_results_v,
                    t_languages = languages_v,
                    t_code_switching = code_switching_v,
                    t_custom_vocabulary = custom_vocabulary_v\<rparr>]\<rparr>
      in emit ''stream_started'' (JObj [(''status'', JStr ''ready'')]) client_sid w4)"

section \<open>The session thread: \<^verbatim>\<open>start_gladia_session\<close> and \<^verbatim>\<open>connect_to_gladia_websocket\<close>\<close>

text \<open>
  The request payload. \<^verbatim>\<open>languages and len(languages) > 0\<close> evaluates \<^verbatim>\<open>len\<close> only for a
  truthy value, and \<^verbatim>\<open>len\<close> raises on a number or a boolean; this code is outside the
  \<^verbatim>\<open>try\<close>, so the exception ends the thread.
\<close>

definition nonempty :: "json \<Rightarrow> py_error + bool" where
  "nonempty v = (if truthy v then bindE (py_len v) (\<lambda>n. Inr (0 < n)) else Inr False)"

definition build_payload :: "thread_args \<Rightarrow> py_error + json" where
  "build_payload a =
     (let languages_v = (if t_languages a = JNull then JArr [] else t_languages a);
          custom_vocabulary_v = (if t_custom_vocabulary a = JNull then JArr [] else t_custom_vocabulary a)
      in bindE (nonempty languages_v) (\<lambda>has_languages.
         let language_config =
               (if has_languages then [(''languages'', languages_v)] else []) @
               (if truthy (t_code_switching a) then [(''code_switching'', JBool True)] else []);
             base =
               [(''encoding'', JStr ''wav/pcm''),
                (''sample_rate'', JInt 16000),
                (''messages_config'',
                   JObj [(''receive_partial_transcripts'', t_partial_results a),
                         (''receive_final_transcripts'', JBool True)])];
             with_languages =
               (if language_config \<noteq> [] then base @ [(''language_config'', JObj language_config)]
                else base)
         in bindE (nonempty custom_vocabulary_v) (\<lambda>has_vocabulary.
            Inr (JObj (if has_vocabulary
                       then with_languages @
                            [(''realtime_processing'',
                                JObj [(''custom_vocabulary'', JBool True),
                                      (''custom_vocabulary_config'',
                                         JObj [(''vocabulary'', custom_vocabulary_v)])])]
                       else with_languages)))))"

text \<open>
  What \<^verbatim>\<open>requests.post\<close> followed by \<^verbatim>\<open>raise_for_status\<close> and \<^verbatim>\<open>response.json()\<close> comes
  to: a parsed body, an \<^verbatim>\<open>HTTPError\<close> (its text, the status code and the body of the
  response), or any other exception (its text).
\<close>

datatype post_result =
    Response json
  | HTTPError string nat string
  | Failure string

text \<open>
  \<^verbatim>\<open>connect_to_gladia_websocket\<close> up to the blocking \<^verbatim>\<open>ws.run_forever()\<close>: the new object
  is created without a socket and stored under \<^verbatim>\<open>'ws'\<close>, replacing whatever was there.
  What \<^verbatim>\<open>run_forever\<close> does afterwards is the library calling the callbacks
  (\<open>step\<close> below).
\<close>

definition connect_to_gladia_websocket :: "sid \<Rightarrow> json \<Rightarrow> world \<Rightarrow> world" where
  "connect_to_gladia_websocket client_sid ws_url w =
     (let i = length (sockets w);
          w1 = w\<lparr>sockets := sockets w @ [\<lparr>url = ws_url, client = client_sid, sock = None, sent = []\<rparr>]\<rparr>
      in case active_sessions w1 client_sid of
           Some e \<Rightarrow> w1\<lparr>active_sessions := (active_sessions w1)(client_sid \<mapsto> e\<lparr>ws := Some i\<rparr>)\<rparr>
         | None \<Rightarrow> w1\<lparr>active_sessions := (active_sessions w1)(client_sid \<mapsto> \<lparr>config = None, ws = Some i\<rparr>)\<rparr>)"

definition session_failed :: "sid \<Rightarrow> string \<Rightarrow> world \<Rightarrow> world" where
  "session_failed client_sid m w =
     emit ''error'' (JObj [(''message'', JStr (''Failed to create session: '' @ m))]) client_sid
       (print (LogSessionError m) w)"

definition start_gladia_session :: "thread_args \<Rightarrow> post_result \<Rightarrow> world \<Rightarrow> py_error + world" where
  "start_gladia_session a post w =
     bindE (build_payload a) (\<lambda>request.
       let w1 = print LogCreatingSession w;
           w2 = w1\<lparr>posted := posted w1 @ [request]\<rparr>
       in case post of
            HTTPError e_text status_code response_text \<Rightarrow>
              Inr (emit ''error''
                     (JObj [(''message'',
                        JStr (''Failed to create session: '' @ str_nat status_code @ '' - '' @ response_text))])
                     (t_client a)
                     (print (LogHTTPResponse response_text) (print (LogHTTPError e_text) w2)))
          | Failure m \<Rightarrow> Inr (session_failed (t_client a) m w2)
          | Response session_data \<Rightarrow>
              (case bindE (py_get session_data ''url'' JNull) (\<lambda>ws_url.
                    bindE (py_get session_data ''id'' JNull) (\<lambda>session_id.
                    Inr (connect_to_gladia_websocket (t_client a) ws_url
                           (print (LogSessionCreated session_id) w2)))) of
                 Inr w' \<Rightarrow> Inr w'
               | Inl e \<Rightarrow> Inr (session_failed (t_client a) (str_of_error e) w2)))"

section \<open>Audio and stop\<close>

text \<open>
  \<^verbatim>\<open>base64.b64decode(data['audio'])\<close>: the argument is \<^verbatim>\<open>Dict[str, str]\<close>; a missing key is
  a \<^verbatim>\<open>KeyError\<close>, and the decoder is a parameter (\<open>Inl m\<close> when it raises).
\<close>

definition audio_bytes :: "(string \<Rightarrow> string + bytes) \<Rightarrow> (string \<times> string) list \<Rightarrow> py_error + bytes" where
  "audio_bytes b64decode data =
     (case map_of data ''audio'' of
        None \<Rightarrow> Inl (KeyError (quoted ''audio''))
      | Some a \<Rightarrow> (case b64decode a of Inl m \<Rightarrow> Inl (LibraryError m) | Inr bs \<Rightarrow> Inr bs))"

text \<open>
  \<^verbatim>\<open>handle_audio_data\<close>. Whether \<^verbatim>\<open>ws.send\<close> raises is decided by the network:
  \<open>send_exc = Some m\<close> is an exception with text \<open>m\<close>.
\<close>

definition handle_audio_data ::
  "(string \<Rightarrow> string + bytes) \<Rightarrow> sid \<Rightarrow> (string \<times> string) list \<Rightarrow> string option \<Rightarrow> world \<Rightarrow> world" where
  "handle_audio_data b64decode client_sid data send_exc w =
     (case active_sessions w client_sid of
        None \<Rightarrow> print (LogNoActiveSession client_sid) w
      | Some entry \<Rightarrow>
          (case ws entry of
             None \<Rightarrow> w
           | Some i \<Rightarrow>
               if i < length (sockets w) \<and> sock (sockets w ! i) = Some True then
                 (case bindE (audio_bytes b64decode data) (\<lambda>bs.
                         case send_exc of
                           Some m \<Rightarrow> Inl (LibraryError m)
                         | None \<Rightarrow> Inr (w\<lparr>sockets := (sockets w)[i := (sockets w ! i)\<lparr>sent := sent (sockets w ! i) @ [bs]\<rparr>]\<rparr>)) of
                    Inr w' \<Rightarrow> w'
                  | Inl e \<Rightarrow>
                      emit ''error''
                        (JObj [(''message'', JStr (''Error sending audio: '' @ str_of_error e))])
                        client_sid
                        (print (LogSendError (str_of_error e)) w))
               else w))"

text \<open>
  \<^verbatim>\<open>handle_stop_stream\<close>: an exception of \<^verbatim>\<open>ws.close()\<close> is swallowed, the entry is
  deleted, and \<^verbatim>\<open>stream_stopped\<close> is emitted in every case.
\<close>

definition handle_stop_stream :: "sid \<Rightarrow> string option \<Rightarrow> world \<Rightarrow> world" where
  "handle_stop_stream client_sid close_exc w =
     (let w1 =
            (case active_sessions w client_sid of
               None \<Rightarrow> w
             | Some entry \<Rightarrow>
                 (let w2 = (case ws entry of
                              None \<Rightarrow> w
                            | Some i \<Rightarrow> (case close_exc of Some m \<Rightarrow> w | None \<Rightarrow> close_ws i w))
                  in w2\<lparr>active_sessions := (active_sessions w2)(client_sid := None)\<rparr>))
      in emit ''stream_stopped'' (JObj [(''status'', JStr ''stopped'')]) client_sid w1)"

section \<open>Interleavings\<close>

text \<open>
  The server reacts to client commands, to the session threads it started and to the
  library calling the callbacks of a connection. Each reaction is one step; a run is a
  sequence of steps in any order. \<open>ThreadRuns n r\<close> lets the \<open>n\<close>-th waiting thread run
  \<^verbatim>\<open>start_gladia_session\<close> with \<open>r\<close> as the answer to its request; a thread that ends with
  an exception leaves the state as it was. \<open>WsConnected i\<close> is \<^verbatim>\<open>run_forever\<close> of the
  \<open>i\<close>-th connection object establishing its socket and calling \<^verbatim>\<open>on_open\<close>;
  \<open>WsClosed i\<close> is the end of that connection, after which the library has dropped the
  socket and calls \<^verbatim>\<open>on_close\<close>.
\<close>

datatype action =
    Connect sid
  | Disconnect sid "string option"
  | StartStream sid "(string \<times> json) list option"
  | AudioData sid "(string \<times> string) list" "string option"
  | StopStream sid "string option"
  | ThreadRuns nat post_result
  | WsConnected wsid
  | WsMessage wsid string
  | WsError wsid string
  | WsClosed wsid json json

record env =
  json_loads :: "string \<Rightarrow> string + json"
  base64_b64decode :: "string \<Rightarrow> string + bytes"

fun step :: "env \<Rightarrow> world \<Rightarrow> action \<Rightarrow> world" where
  "step E w (Connect c) = handle_connect c w"
| "step E w (Disconnect c x) = handle_disconnect c x w"
| "step E w (StartStream c cfg) = handle_start_stream c cfg w"
| "step E w (AudioData c d x) = handle_audio_data (base64_b64decode E) c d x w"
| "step E w (StopStream c x) = handle_stop_stream c x w"
| "step E w (ThreadRuns n r) =
     (if n < length (threads w)
      then (let w1 = w\<lparr>threads := take n (threads w) @ drop (Suc n) (threads w)\<rparr>
            in case start_gladia_session (threads w ! n) r w1 of Inr w' \<Rightarrow> w' | Inl e \<Rightarrow> w1)
      else w)"
| "step E w (WsConnected i) =
     (if i < length (sockets w)
      then on_open (w\<lparr>sockets := (sockets w)[i := (sockets w ! i)\<lparr>sock := Some True\<rparr>]\<rparr>)
      else w)"
| "step E w (WsMessage i m) =
     (if i < length (sockets w) then on_message (json_loads E) (client (sockets w ! i)) w m else w)"
| "step E w (WsError i m) =
     (if i < length (sockets w) then on_error (client (sockets w ! i)) w m else w)"
| "step E w (WsClosed i code msg) =
     (if i < length (sockets w)
      then on_close (client (sockets w ! i)) (close_ws i w) code msg
      else w)"

definition run :: "env \<Rightarrow> world \<Rightarrow> action list \<Rightarrow> world" where
  "run E w as = foldl (step E) w as"

text \<open>The connections of a client that are open: created for it and with a connected socket.\<close>

definition open_handles :: "world \<Rightarrow> sid \<Rightarrow> wsid list" where
  "open_handles w c =
     filter (\<lambda>i. client (sockets w ! i) = c \<and> sock (sockets w ! i) = Some True) [0..<length (sockets w)]"

section \<open>The command-line client: \<^verbatim>\<open>on_message\<close> of \<^verbatim>\<open>cli.py\<close>\<close>

text \<open>
  \<^verbatim>\<open>str.strip()\<close> removes leading and trailing whitespace; a character stands for the
  code point of the same number, and these are the code points below 256 for which
  \<^verbatim>\<open>str.isspace\<close> holds.
\<close>

definition py_isspace :: "char \<Rightarrow> bool" where
  "py_isspace ch = (of_char ch \<in> set [9, 10, 11, 12, 13, 28, 29, 30, 31, 32, 133, 160 :: nat])"

definition strip :: "string \<Rightarrow> string" where
  "strip s = rev (dropWhile py_isspace (rev (dropWhile py_isspace s)))"

definition py_strip :: "json \<Rightarrow> py_error + string" where
  "py_strip v =
     (case v of
        JStr s \<Rightarrow> Inr (strip s)
      | _ \<Rightarrow> Inl (AttributeError (quoted (py_type v) @ '' object has no attribute '' @ quoted ''strip'')))"

text \<open>
  The handler up to the point where the line for the terminal is formatted (the
  formatting and the cursor control that follow are not modelled): it raises, returns
  without output (\<open>Ignored\<close> for a frame that is no transcript, \<open>Suppressed\<close> for an
  empty text), or goes on to write a line from the values of \<open>Rendered\<close> (speaker,
  finality, start, end, text). There is no \<^verbatim>\<open>try\<close> in this handler.
\<close>

datatype cli_outcome =
    Ignored
  | Suppressed
  | Rendered json json json json string

definition cli_on_message :: "(string \<Rightarrow> string + json) \<Rightarrow> string \<Rightarrow> py_error + cli_outcome" where
  "cli_on_message loads message =
     (case loads message of
        Inl m \<Rightarrow> Inl (JSONDecodeError m)
      | Inr data \<Rightarrow>
          bindE (py_get data ''type'' JNull) (\<lambda>ty.
          if ty = JStr ''transcript'' then
            bindE (py_get data ''data'' (JObj [])) (\<lambda>d1.
            bindE (py_get d1 ''utterance'' (JObj [])) (\<lambda>utterance.
            bindE (py_get utterance ''text'' (JStr [])) (\<lambda>raw.
            bindE (py_strip raw) (\<lambda>text.
            if text = [] then Inr Suppressed
            else
              bindE (py_get utterance ''speaker'' (JInt 0)) (\<lambda>speaker.
              bindE (py_get data ''data'' (JObj [])) (\<lambda>d2.
              bindE (py_get d2 ''is_final'' (JBool False)) (\<lambda>is_final.
              bindE (py_get utterance ''start'' (JInt 0)) (\<lambda>start_time.
              bindE (py_get utterance ''end'' (JInt 0)) (\<lambda>end_time.
              Inr (Rendered speaker is_final start_time end_time text))))))))))
          else Inr Ignored))"

section \<open>Sample frames\<close>

text \<open>
  Three inbound frames and a parser that knows them: the transcript frame of the
  end-to-end scenario, a transcript frame whose text is three spaces, and a
  voice-activity frame. Every other string is rejected as malformed.
\<close>

definition frame_he :: string where
  \<open>frame_he = ''{"type":"transcript","data":{"is_final":false,"utterance":{"text":"he","speaker":0,"start":0.1,"end":0.4}}}''\<close>

definition frame_blank :: string where
  \<open>frame_blank = ''{"type":"transcript","data":{"is_final":true,"utterance":{"text":"   ","speaker":1}}}''\<close>

definition frame_speech_start :: string where
  \<open>frame_speech_start = ''{"type":"speech_start","data":{"time":1.5}}''\<close>

definition frame_error :: string where
  \<open>frame_error = ''{"type":"error","data":{"message":"quota exceeded"}}''\<close>

definition sample_loads :: "string \<Rightarrow> string + json" where
  "sample_loads m =
     (if m = frame_he then
        Inr (JObj [(''type'', JStr ''transcript''),
                   (''data'', JObj [(''is_final'', JBool False),
                                    (''utterance'', JObj [(''text'', JStr ''he''),
                                                          (''speaker'', JInt 0),
                                                          (''start'', JFloat (1 / 10)),
                                                          (''end'', JFloat (4 / 10))])])])
      else if m = frame_blank then
        Inr (JObj [(''type'', JStr ''transcript''),
                   (''data'', JObj [(''is_final'', JBool True),
                                    (''utterance'', JObj [(''text'', JStr ''   ''),
                                                          (''speaker'', JInt 1)])])])
      else if m = frame_speech_start then
        Inr (JObj [(''type'', JStr ''speech_start''),
                   (''data'', JObj [(''time'', JFloat (3 / 2))])])
      else if m = frame_error then
        Inr (JObj [(''type'', JStr ''error''),
                   (''data'', JObj [(''message'', JStr ''quota exceeded'')])])
      else Inl ''Expecting value: line 1 column 1 (char 0)'')"

definition sample_env :: env where
  "sample_env = \<lparr>json_loads = sample_loads, base64_b64decode = (\<lambda>s. if s = ''AAE='' then Inr [0, 1] else Inl ''Incorrect padding'')\<rparr>"

text \<open>A server state in which one client has started a stream with a speaker label.\<close>

definition labelled_world :: world where
  "labelled_world = handle_start_stream ''client-1'' (Some [(''speaker_name'', JStr ''Alice'')]) initial_world"

text \<open>The thread of a start command without config, and the request it posts.\<close>

definition demo_thread :: thread_args where
  "demo_thread = \<lparr>t_client = ''client-1'', t_partial_results = JBool True, t_languages = JArr [],
                   t_code_switching = JBool False, t_custom_vocabulary = JArr []\<rparr>"

definition demo_request :: json where
  "demo_request = JObj [(''encoding'', JStr ''wav/pcm''),
                (''sample_rate'', JInt 16000),
                (''messages_config'',
                   JObj [(''receive_partial_transcripts'', JBool True),
                         (''receive_final_transcripts'', JBool True)])]"

text \<open>
  The states of a run in which one client starts a stream, the handshake succeeds and
  the connection is established.
\<close>

definition started_world :: world where
  "started_world = handle_start_stream ''client-1'' None initial_world"

definition connecting_world :: world where
  "connecting_world =
     step sample_env started_world
       (ThreadRuns 0 (Response (JObj [(''id'', JStr ''s1''), (''url'', JStr ''wss://x'')])))"

definition streaming_world :: world where
  "streaming_world = step sample_env connecting_world (WsConnected 0)"

section \<open>Basic facts\<close>

lemma bindE_Inr_iff: "bindE m f = Inr y \<longleftrightarrow> (\<exists>x. m = Inr x \<and> f x = Inr y)"
  by (cases m) (simp_all add: bindE_def)

lemma bindE_Inr [simp]: "bindE (Inr x) f = f x"
  by (simp add: bindE_def)

lemma bindE_Inl [simp]: "bindE (Inl e) f = Inl e"
  by (simp add: bindE_def)

lemma py_get_dict [simp]: "py_get (JObj d) k dflt = Inr (dict_get d k dflt)"
  by (simp add: py_get_def)

lemma py_get_Inr_iff: "py_get v k dflt = Inr x \<longleftrightarrow> (\<exists>d. v = JObj d \<and> x = dict_get d k dflt)"
  by (cases v) (auto simp add: py_get_def)

lemma emitted_same [simp]: "emitted w w = []"
  by (simp add: emitted_def)

lemma emitted_print [simp]: "emitted w (print l w) = []"
  by (simp add: emitted_def print_def)

lemma emitted_emit_print [simp]:
  "emitted w (emit ev p r (print l w)) = [\<lparr>event = ev, payload = p, room = r\<rparr>]"
  by (simp add: emitted_def print_def emit_def)

lemma emitted_emit [simp]: "emitted w (emit ev p r w) = [\<lparr>event = ev, payload = p, room = r\<rparr>]"
  by (simp add: emitted_def emit_def)

lemma on_message_body_transcript:
  assumes "loads msg = Inr (JObj d)"
    and "dict_get d ''type'' JNull = JStr ''transcript''"
    and "dict_get d ''data'' (JObj []) = JObj dd"
    and "dict_get dd ''utterance'' (JObj []) = JObj u"
    and "truthy (dict_get u ''text'' (JStr []))"
  shows "on_message_body loads c w msg =
     Inr (emit ''transcript''
            (JObj [(''speaker'', dict_get u ''speaker'' (JInt 0)),
                   (''text'', dict_get u ''text'' (JStr [])),
                   (''is_final'', dict_get dd ''is_final'' (JBool False)),
                   (''speaker_name'',
                      (case active_sessions w c of
                         None \<Rightarrow> JNull
                       | Some entry \<Rightarrow>
                           let stored_name = (case config entry of None \<Rightarrow> JStr [] | Some cfg \<Rightarrow> speaker_name cfg)
                           in if eq_zero (dict_get u ''speaker'' (JInt 0)) \<and> truthy stored_name
                              then stored_name else JNull)),
                   (''timestamp'', dict_get u ''start'' JNull),
                   (''end_time'', dict_get u ''end'' JNull)])
            c (print (LogTranscript (dict_get u ''speaker'' (JInt 0)) (dict_get u ''text'' (JStr []))
                        (dict_get dd ''is_final'' (JBool False))) w))"
  using assms by (simp add: on_message_body_def print_def)


lemma on_message_transcript:
  assumes "loads msg = Inr (JObj d)"
    and "dict_get d ''type'' JNull = JStr ''transcript''"
    and "dict_get d ''data'' (JObj []) = JObj dd"
    and "dict_get dd ''utterance'' (JObj []) = JObj u"
    and "truthy (dict_get u ''text'' (JStr []))"
  shows "on_message loads c w msg =
     emit ''transcript''
            (JObj [(''speaker'', dict_get u ''speaker'' (JInt 0)),
                   (''text'', dict_get u ''text'' (JStr [])),
                   (''is_final'', dict_get dd ''is_final'' (JBool False)),
                   (''speaker_name'',
                      (case active_sessions w c of
                         None \<Rightarrow> JNull
                       | Some entry \<Rightarrow>
                           let stored_name = (case config entry of None \<Rightarrow> JStr [] | Some cfg \<Rightarrow> speaker_name cfg)
                           in if eq_zero (dict_get u ''speaker'' (JInt 0)) \<and> truthy stored_name
                              then stored_name else JNull)),
                   (''timestamp'', dict_get u ''start'' JNull),
                   (''end_time'', dict_get u ''end'' JNull)])
            c (print (LogTranscript (dict_get u ''speaker'' (JInt 0)) (dict_get u ''text'' (JStr []))
                        (dict_get dd ''is_final'' (JBool False))) w)"
  using on_message_body_transcript[of loads msg d dd u c w] assms by (simp add: on_message_def)

lemma on_message_body_Inr:
  assumes "on_message_body loads c w msg = Inr w'"
  shows "w' = w \<or>
     (\<exists>d dd u. loads msg = Inr (JObj d) \<and> dict_get d ''type'' JNull = JStr ''transcript'' \<and>
        dict_get d ''data'' (JObj []) = JObj dd \<and> dict_get dd ''utterance'' (JObj []) = JObj u \<and>
        truthy (dict_get u ''text'' (JStr [])))"
  using assms unfolding on_message_body_def
  by (auto simp: bindE_Inr_iff py_get_Inr_iff split: sum.splits if_splits)

lemma on_message_quiet:
  assumes "\<not> (\<exists>d dd u. loads msg = Inr (JObj d) \<and> dict_get d ''type'' JNull = JStr ''transcript'' \<and>
        dict_get d ''data'' (JObj []) = JObj dd \<and> dict_get dd ''utterance'' (JObj []) = JObj u \<and>
        truthy (dict_get u ''text'' (JStr [])))"
  shows "on_message loads c w msg = w \<or> (\<exists>l. on_message loads c w msg = print l w)"
proof (cases "on_message_body loads c w msg")
  case (Inl e)
  then show ?thesis by (cases e) (auto simp add: on_message_def)
next
  case (Inr w')
  from on_message_body_Inr[OF Inr] assms have "w' = w" by blast
  with Inr show ?thesis by (simp add: on_message_def)
qed

lemma on_message_malformed:
  assumes "loads msg = Inl m"
  shows "on_message loads c w msg = print (LogParseError m) w"
  using assms by (simp add: on_message_def on_message_body_def)

section \<open>Claims about inbound transcript frames\<close>

text \<open>
  Claim C7. An inbound frame of type \<^verbatim>\<open>transcript\<close> whose utterance text is a non-empty
  string makes \<^verbatim>\<open>on_message\<close> emit exactly one \<^verbatim>\<open>transcript\<close> event to the owning client.
  Its payload carries the utterance's speaker (0 if absent), the text, the finality flag
  of the frame (false if absent) and the start and end times of the utterance (null if
  absent), under the keys \<^verbatim>\<open>speaker\<close>, \<^verbatim>\<open>text\<close>, \<^verbatim>\<open>is_final\<close>, \<^verbatim>\<open>timestamp\<close> and
  \<^verbatim>\<open>end_time\<close>. The witness is the frame of the end-to-end scenario.
\<close>

theorem transcript_fields_forwarded:
  assumes "loads msg = Inr (JObj d)"
    and "dict_get d ''type'' JNull = JStr ''transcript''"
    and "dict_get d ''data'' (JObj []) = JObj dd"
    and "dict_get dd ''utterance'' (JObj []) = JObj u"
    and "dict_get u ''text'' (JStr []) = JStr t"
    and "t \<noteq> []"
  shows "\<exists>display_name.
     emitted w (on_message loads c w msg) =
       [\<lparr>event = ''transcript'',
         payload = JObj [(''speaker'', dict_get u ''speaker'' (JInt 0)),
                         (''text'', JStr t),
                         (''is_final'', dict_get dd ''is_final'' (JBool False)),
                         (''speaker_name'', display_name),
                         (''timestamp'', dict_get u ''start'' JNull),
                         (''end_time'', dict_get u ''end'' JNull)],
         room = c\<rparr>]"
proof -
  from assms(5,6) have "truthy (dict_get u ''text'' (JStr []))" by simp
  from on_message_transcript[of loads msg d dd u c w] assms this
  show ?thesis by simp
qed

theorem transcript_fields_forwarded_witness:
  "sample_loads frame_he =
     Inr (JObj [(''type'', JStr ''transcript''),
                (''data'', JObj [(''is_final'', JBool False),
                                 (''utterance'', JObj [(''text'', JStr ''he''),
                                                       (''speaker'', JInt 0),
                                                       (''start'', JFloat (1 / 10)),
                                                       (''end'', JFloat (4 / 10))])])]) \<and>
   (\<exists>display_name.
     emitted initial_world (on_message sample_loads ''client-1'' initial_world frame_he) =
       [\<lparr>event = ''transcript'',
         payload = JObj [(''speaker'', JInt 0),
                         (''text'', JStr ''he''),
                         (''is_final'', JBool False),
                         (''speaker_name'', display_name),
                         (''timestamp'', JFloat (1 / 10)),
                         (''end_time'', JFloat (4 / 10))],
         room = ''client-1''\<rparr>])"
proof -
  have l: "sample_loads frame_he =
     Inr (JObj [(''type'', JStr ''transcript''),
                (''data'', JObj [(''is_final'', JBool False),
                                 (''utterance'', JObj [(''text'', JStr ''he''),
                                                       (''speaker'', JInt 0),
                                                       (''start'', JFloat (1 / 10)),
                                                       (''end'', JFloat (4 / 10))])])])"
    by (simp add: sample_loads_def)
  have "\<exists>display_name.
     emitted initial_world (on_message sample_loads ''client-1'' initial_world frame_he) =
       [\<lparr>event = ''transcript'',
         payload = JObj [(''speaker'', dict_get [(''text'', JStr ''he''), (''speaker'', JInt 0),
                                                 (''start'', JFloat (1 / 10)), (''end'', JFloat (4 / 10))] ''speaker'' (JInt 0)),
                         (''text'', JStr ''he''),
                         (''is_final'', dict_get [(''is_final'', JBool False),
                                 (''utterance'', JObj [(''text'', JStr ''he''),
                                                       (''speaker'', JInt 0),
                                                       (''start'', JFloat (1 / 10)),
                                                       (''end'', JFloat (4 / 10))])] ''is_final'' (JBool False)),
                         (''speaker_name'', display_name),
                         (''timestamp'', dict_get [(''text'', JStr ''he''), (''speaker'', JInt 0),
                                                 (''start'', JFloat (1 / 10)), (''end'', JFloat (4 / 10))] ''start'' JNull),
                         (''end_time'', dict_get [(''text'', JStr ''he''), (''speaker'', JInt 0),
                                                 (''start'', JFloat (1 / 10)), (''end'', JFloat (4 / 10))] ''end'' JNull)],
         room = ''client-1''\<rparr>]"
    by (rule transcript_fields_forwarded[where loads = sample_loads and msg = frame_he, OF l]) (simp_all add: dict_get_def)
  then have "\<exists>display_name.
     emitted initial_world (on_message sample_loads ''client-1'' initial_world frame_he) =
       [\<lparr>event = ''transcript'',
         payload = JObj [(''speaker'', JInt 0),
                         (''text'', JStr ''he''),
                         (''is_final'', JBool False),
                         (''speaker_name'', display_name),
                         (''timestamp'', JFloat (1 / 10)),
                         (''end_time'', JFloat (4 / 10))],
         room = ''client-1''\<rparr>]"
    by (simp add: dict_get_def)
  with l show ?thesis by (rule conjI)
qed


text \<open>
  Claim C6. Every \<^verbatim>\<open>transcript\<close> event that \<^verbatim>\<open>on_message\<close> forwards has this shape, and its
  \<^verbatim>\<open>speaker_name\<close> is decided as follows. If the speaker compares equal to 0
  (\<open>eq_zero\<close>; for an integer index \<open>i\<close> this is \<open>i = 0\<close>) and the registry entry of the
  client holds a config whose speaker name is truthy (for a string: non-empty), the
  field is that name. For any other speaker it is null, and it is null when the client
  has no entry, when the entry has no config, and when the stored name is empty.
\<close>

theorem display_name_override:
  assumes "ev \<in> set (emitted w (on_message loads c w msg))"
  shows "\<exists>speaker text is_final display_name start_time end_time.
     ev = \<lparr>event = ''transcript'',
           payload = JObj [(''speaker'', speaker), (''text'', text), (''is_final'', is_final),
                           (''speaker_name'', display_name),
                           (''timestamp'', start_time), (''end_time'', end_time)],
           room = c\<rparr> \<and>
     (\<forall>entry cfg. eq_zero speaker \<and> active_sessions w c = Some entry \<and> config entry = Some cfg \<and>
         truthy (speaker_name cfg) \<longrightarrow> display_name = speaker_name cfg) \<and>
     (\<not> eq_zero speaker \<longrightarrow> display_name = JNull) \<and>
     (active_sessions w c = None \<longrightarrow> display_name = JNull) \<and>
     (\<forall>entry. active_sessions w c = Some entry \<and> config entry = None \<longrightarrow> display_name = JNull) \<and>
     (\<forall>entry cfg. active_sessions w c = Some entry \<and> config entry = Some cfg \<and>
         \<not> truthy (speaker_name cfg) \<longrightarrow> display_name = JNull)"
proof (cases "\<exists>d dd u. loads msg = Inr (JObj d) \<and> dict_get d ''type'' JNull = JStr ''transcript'' \<and>
        dict_get d ''data'' (JObj []) = JObj dd \<and> dict_get dd ''utterance'' (JObj []) = JObj u \<and>
        truthy (dict_get u ''text'' (JStr []))")
  case False
  from on_message_quiet[of loads msg c w] False have "emitted w (on_message loads c w msg) = []"
    by auto
  with assms show ?thesis by simp
next
  case True
  then obtain d dd u where f: "loads msg = Inr (JObj d)" "dict_get d ''type'' JNull = JStr ''transcript''"
      "dict_get d ''data'' (JObj []) = JObj dd" "dict_get dd ''utterance'' (JObj []) = JObj u"
      "truthy (dict_get u ''text'' (JStr []))"
    by blast
  from assms on_message_transcript[of loads msg d dd u c w] f
  have ev: "ev = \<lparr>event = ''transcript'',
         payload = JObj [(''speaker'', dict_get u ''speaker'' (JInt 0)),
                   (''text'', dict_get u ''text'' (JStr [])),
                   (''is_final'', dict_get dd ''is_final'' (JBool False)),
                   (''speaker_name'',
                      (case active_sessions w c of
                         None \<Rightarrow> JNull
                       | Some entry \<Rightarrow>
                           let stored_name = (case config entry of None \<Rightarrow> JStr [] | Some cfg \<Rightarrow> speaker_name cfg)
                           in if eq_zero (dict_get u ''speaker'' (JInt 0)) \<and> truthy stored_name
                              then stored_name else JNull)),
                   (''timestamp'', dict_get u ''start'' JNull),
                   (''end_time'', dict_get u ''end'' JNull)],
         room = c\<rparr>"
    by simp
  show ?thesis
    unfolding ev by (simp split: option.splits)
qed


lemma labelled_world_entry:
  "active_sessions labelled_world ''client-1'' =
     Some \<lparr>config = Some \<lparr>speaker_name = JStr ''Alice'', partial_results = JBool True, languages = JArr [],
                           code_switching = JBool False, custom_vocabulary = JArr []\<rparr>,
           ws = None\<rparr>"
  by (simp add: labelled_world_def handle_start_stream_def initial_world_def print_def emit_def dict_get_def Let_def)

lemma labelled_world_frame_he:
  "on_message sample_loads ''client-1'' labelled_world frame_he =
        emit ''transcript''
          (JObj [(''speaker'', JInt 0), (''text'', JStr ''he''), (''is_final'', JBool False),
                 (''speaker_name'', JStr ''Alice''),
                 (''timestamp'', JFloat (1 / 10)), (''end_time'', JFloat (4 / 10))])
          ''client-1''
          (print (LogTranscript (JInt 0) (JStr ''he'') (JBool False)) labelled_world)"
    by (simp add: on_message_def on_message_body_def sample_loads_def dict_get_def
        labelled_world_entry print_def)

theorem display_name_override_witness:
  "\<lparr>event = ''transcript'',
    payload = JObj [(''speaker'', JInt 0), (''text'', JStr ''he''), (''is_final'', JBool False),
                    (''speaker_name'', JStr ''Alice''),
                    (''timestamp'', JFloat (1 / 10)), (''end_time'', JFloat (4 / 10))],
    room = ''client-1''\<rparr>
     \<in> set (emitted labelled_world (on_message sample_loads ''client-1'' labelled_world frame_he)) \<and>
   (\<exists>speaker tx is_final display_name start_time end_time.
     \<lparr>event = ''transcript'',
      payload = JObj [(''speaker'', JInt 0), (''text'', JStr ''he''), (''is_final'', JBool False),
                      (''speaker_name'', JStr ''Alice''),
                      (''timestamp'', JFloat (1 / 10)), (''end_time'', JFloat (4 / 10))],
      room = ''client-1''\<rparr> =
     \<lparr>event = ''transcript'',
      payload = JObj [(''speaker'', speaker), (''text'', tx), (''is_final'', is_final),
                           (''speaker_name'', display_name),
                           (''timestamp'', start_time), (''end_time'', end_time)],
      room = ''client-1''\<rparr> \<and>
     (\<forall>entry cfg. eq_zero speaker \<and> active_sessions labelled_world ''client-1'' = Some entry \<and> config entry = Some cfg \<and>
         truthy (speaker_name cfg) \<longrightarrow> display_name = speaker_name cfg) \<and>
     (\<not> eq_zero speaker \<longrightarrow> display_name = JNull) \<and>
     (active_sessions labelled_world ''client-1'' = None \<longrightarrow> display_name = JNull) \<and>
     (\<forall>entry. active_sessions labelled_world ''client-1'' = Some entry \<and> config entry = None \<longrightarrow> display_name = JNull) \<and>
     (\<forall>entry cfg. active_sessions labelled_world ''client-1'' = Some entry \<and> config entry = Some cfg \<and>
         \<not> truthy (speaker_name cfg) \<longrightarrow> display_name = JNull))"
proof (rule conjI)
  show h: "\<lparr>event = ''transcript'',
    payload = JObj [(''speaker'', JInt 0), (''text'', JStr ''he''), (''is_final'', JBool False),
                    (''speaker_name'', JStr ''Alice''),
                    (''timestamp'', JFloat (1 / 10)), (''end_time'', JFloat (4 / 10))],
    room = ''client-1''\<rparr>
     \<in> set (emitted labelled_world (on_message sample_loads ''client-1'' labelled_world frame_he))"
    unfolding labelled_world_frame_he by simp
  show "\<exists>speaker tx is_final display_name start_time end_time.
     \<lparr>event = ''transcript'',
      payload = JObj [(''speaker'', JInt 0), (''text'', JStr ''he''), (''is_final'', JBool False),
                      (''speaker_name'', JStr ''Alice''),
                      (''timestamp'', JFloat (1 / 10)), (''end_time'', JFloat (4 / 10))],
      room = ''client-1''\<rparr> =
     \<lparr>event = ''transcript'',
      payload = JObj [(''speaker'', speaker), (''text'', tx), (''is_final'', is_final),
                           (''speaker_name'', display_name),
                           (''timestamp'', start_time), (''end_time'', end_time)],
      room = ''client-1''\<rparr> \<and>
     (\<forall>entry cfg. eq_zero speaker \<and> active_sessions labelled_world ''client-1'' = Some entry \<and> config entry = Some cfg \<and>
         truthy (speaker_name cfg) \<longrightarrow> display_name = speaker_name cfg) \<and>
     (\<not> eq_zero speaker \<longrightarrow> display_name = JNull) \<and>
     (active_sessions labelled_world ''client-1'' = None \<longrightarrow> display_name = JNull) \<and>
     (\<forall>entry. active_sessions labelled_world ''client-1'' = Some entry \<and> config entry = None \<longrightarrow> display_name = JNull) \<and>
     (\<forall>entry cfg. active_sessions labelled_world ''client-1'' = Some entry \<and> config entry = Some cfg \<and>
         \<not> truthy (speaker_name cfg) \<longrightarrow> display_name = JNull)"
    by (rule display_name_override[where loads = sample_loads and msg = frame_he, OF h])
qed

section \<open>Claims about the other inbound frames\<close>

text \<open>
  Claim C9, as amended. \<^verbatim>\<open>on_message\<close> acts on frames of type \<^verbatim>\<open>transcript\<close> only: a frame
  of any other type, the voice-activity kinds and the type \<^verbatim>\<open>error\<close> included, leaves
  the whole state as it was, so nothing is forwarded to the client for it (and it is
  never delivered as a transcript event). The one \<^verbatim>\<open>error\<close> event of a connection is
  the one \<^verbatim>\<open>on_error\<close> emits for an error reported by the WebSocket library.
\<close>

theorem other_frames_dropped:
  assumes "loads msg = Inr (JObj d)"
    and "dict_get d ''type'' JNull \<noteq> JStr ''transcript''"
  shows "on_message loads c w msg = w \<and>
         emitted w (on_error c w m) = [\<lparr>event = ''error'', payload = JObj [(''message'', JStr m)], room = c\<rparr>]"
  using assms by (simp add: on_message_def on_message_body_def on_error_def)

theorem other_frames_dropped_witness:
  "sample_loads frame_speech_start =
     Inr (JObj [(''type'', JStr ''speech_start''), (''data'', JObj [(''time'', JFloat (3 / 2))])]) \<and>
   dict_get [(''type'', JStr ''speech_start''), (''data'', JObj [(''time'', JFloat (3 / 2))])] ''type'' JNull
     \<noteq> JStr ''transcript'' \<and>
   on_message sample_loads ''client-1'' labelled_world frame_speech_start = labelled_world \<and>
   emitted labelled_world (on_error ''client-1'' labelled_world ''Connection reset by peer'') =
     [\<lparr>event = ''error'', payload = JObj [(''message'', JStr ''Connection reset by peer'')], room = ''client-1''\<rparr>]"
proof -
  have l: "sample_loads frame_speech_start =
     Inr (JObj [(''type'', JStr ''speech_start''), (''data'', JObj [(''time'', JFloat (3 / 2))])])"
    by (simp add: sample_loads_def frame_speech_start_def frame_he_def frame_blank_def)
  have t: "dict_get [(''type'', JStr ''speech_start''), (''data'', JObj [(''time'', JFloat (3 / 2))])] ''type'' JNull
     \<noteq> JStr ''transcript''"
    by (simp add: dict_get_def)
  from other_frames_dropped[where loads = sample_loads and msg = frame_speech_start, OF l t] l t
  show ?thesis by blast
qed

text \<open>
  Claim C9 as stated fails: neither the voice-activity frame nor the error frame of the
  samples produces any event.
\<close>

theorem voice_activity_not_forwarded:
  "emitted initial_world (on_message sample_loads ''client-1'' initial_world frame_speech_start) = [] \<and>
   emitted initial_world (on_message sample_loads ''client-1'' initial_world frame_error) = []"
  by (simp add: on_message_def on_message_body_def sample_loads_def dict_get_def
      frame_speech_start_def frame_he_def frame_blank_def frame_error_def)

text \<open>
  Claim C3. \<^verbatim>\<open>on_message\<close> of \<^verbatim>\<open>app.py\<close> tests the text as it arrived
  (\<^verbatim>\<open>if text:\<close>), so the transcript frame whose text is three spaces is forwarded,
  whereas \<^verbatim>\<open>on_message\<close> of \<^verbatim>\<open>cli.py\<close> trims the text first and suppresses the same frame.
\<close>

theorem blank_text_forwarded:
  "emitted initial_world (on_message sample_loads ''client-1'' initial_world frame_blank) =
     [\<lparr>event = ''transcript'',
       payload = JObj [(''speaker'', JInt 1), (''text'', JStr ''   ''), (''is_final'', JBool True),
                       (''speaker_name'', JNull), (''timestamp'', JNull), (''end_time'', JNull)],
       room = ''client-1''\<rparr>] \<and>
   cli_on_message sample_loads frame_blank = Inr Suppressed"
  by (simp add: on_message_def on_message_body_def cli_on_message_def sample_loads_def dict_get_def
      frame_he_def frame_blank_def initial_world_def py_strip_def strip_def py_isspace_def print_def
      emit_def emitted_def)

text \<open>The handler of \<^verbatim>\<open>cli.py\<close> suppresses every text that is blank after trimming, and raises on a malformed frame.\<close>

lemma strip_blank:
  assumes "\<forall>ch \<in> set s. py_isspace ch"
  shows "strip s = []"
proof -
  from assms have d: "dropWhile py_isspace s = []" by simp
  show ?thesis unfolding strip_def d by simp
qed

lemma cli_on_message_suppresses:
  assumes "loads msg = Inr (JObj d)"
    and "dict_get d ''type'' JNull = JStr ''transcript''"
    and "dict_get d ''data'' (JObj []) = JObj dd"
    and "dict_get dd ''utterance'' (JObj []) = JObj u"
    and "dict_get u ''text'' (JStr []) = JStr t"
    and "\<forall>ch \<in> set t. py_isspace ch"
  shows "cli_on_message loads msg = Inr Suppressed"
  using assms by (simp add: cli_on_message_def py_strip_def strip_blank)

lemma cli_on_message_malformed:
  "loads msg = Inl m \<Longrightarrow> cli_on_message loads msg = Inl (JSONDecodeError m)"
  by (simp add: cli_on_message_def)

section \<open>Start of a stream\<close>

text \<open>
  Claim C10. After \<^verbatim>\<open>handle_start_stream\<close> the registry entry of the client holds a
  config. With no config argument it is the fixed defaults (empty speaker name, partial
  results true, no languages, code switching false, no vocabulary); with a config
  argument, every field whose key is missing has its default. The entry is written by
  the handler itself: when it returns no request has been posted and no connection
  object created, and the session thread is waiting with the same values as arguments.
\<close>

theorem start_stream_defaults:
  "\<exists>entry cfg.
     active_sessions (handle_start_stream c config_arg w) c = Some entry \<and>
     config entry = Some cfg \<and>
     (config_arg = None \<longrightarrow>
        cfg = \<lparr>speaker_name = JStr [], partial_results = JBool True, languages = JArr [],
               code_switching = JBool False, custom_vocabulary = JArr []\<rparr>) \<and>
     (\<forall>d. config_arg = Some d \<longrightarrow>
        (map_of d ''speaker_name'' = None \<longrightarrow> speaker_name cfg = JStr []) \<and>
        (map_of d ''partial_results'' = None \<longrightarrow> partial_results cfg = JBool True) \<and>
        (map_of d ''languages'' = None \<longrightarrow> languages cfg = JArr []) \<and>
        (map_of d ''code_switching'' = None \<longrightarrow> code_switching cfg = JBool False) \<and>
        (map_of d ''custom_vocabulary'' = None \<longrightarrow> custom_vocabulary cfg = JArr [])) \<and>
     posted (handle_start_stream c config_arg w) = posted w \<and>
     sockets (handle_start_stream c config_arg w) = sockets w \<and>
     threads (handle_start_stream c config_arg w) =
       threads w @ [\<lparr>t_client = c, t_partial_results = partial_results cfg, t_languages = languages cfg,
                     t_code_switching = code_switching cfg, t_custom_vocabulary = custom_vocabulary cfg\<rparr>]"
  by (simp add: handle_start_stream_def Let_def emit_def print_def dict_get_def split: option.splits)

theorem start_stream_defaults_witness:
  "(\<exists>entry.
     active_sessions (handle_start_stream ''client-1'' None initial_world) ''client-1'' = Some entry \<and>
     config entry = Some \<lparr>speaker_name = JStr [], partial_results = JBool True, languages = JArr [],
               code_switching = JBool False, custom_vocabulary = JArr []\<rparr>) \<and>
   (\<exists>entry.
     active_sessions (handle_start_stream ''client-1'' (Some [(''languages'', JArr [JStr ''fr''])]) initial_world) ''client-1'' = Some entry \<and>
     config entry = Some \<lparr>speaker_name = JStr [], partial_results = JBool True, languages = JArr [JStr ''fr''],
               code_switching = JBool False, custom_vocabulary = JArr []\<rparr>)"
proof (rule conjI)
  from start_stream_defaults[of "''client-1''" None initial_world]
  show "\<exists>entry.
     active_sessions (handle_start_stream ''client-1'' None initial_world) ''client-1'' = Some entry \<and>
     config entry = Some \<lparr>speaker_name = JStr [], partial_results = JBool True, languages = JArr [],
               code_switching = JBool False, custom_vocabulary = JArr []\<rparr>"
    by blast
  from start_stream_defaults[of "''client-1''" "Some [(''languages'', JArr [JStr ''fr''])]" initial_world]
  obtain entry cfg where
    e: "active_sessions (handle_start_stream ''client-1'' (Some [(''languages'', JArr [JStr ''fr''])]) initial_world) ''client-1'' = Some entry"
    and c: "config entry = Some cfg"
    and d: "\<forall>d. Some [(''languages'', JArr [JStr ''fr''])] = Some d \<longrightarrow>
        (map_of d ''speaker_name'' = None \<longrightarrow> speaker_name cfg = JStr []) \<and>
        (map_of d ''partial_results'' = None \<longrightarrow> partial_results cfg = JBool True) \<and>
        (map_of d ''languages'' = None \<longrightarrow> languages cfg = JArr []) \<and>
        (map_of d ''code_switching'' = None \<longrightarrow> code_switching cfg = JBool False) \<and>
        (map_of d ''custom_vocabulary'' = None \<longrightarrow> custom_vocabulary cfg = JArr [])"
    by blast
  from d have "speaker_name cfg = JStr []" "partial_results cfg = JBool True"
    "code_switching cfg = JBool False" "custom_vocabulary cfg = JArr []"
    by simp_all
  moreover from e c have "languages cfg = JArr [JStr ''fr'']"
    by (auto simp add: handle_start_stream_def Let_def emit_def print_def dict_get_def initial_world_def)
  ultimately have "cfg = \<lparr>speaker_name = JStr [], partial_results = JBool True, languages = JArr [JStr ''fr''],
               code_switching = JBool False, custom_vocabulary = JArr []\<rparr>"
    by (cases cfg) simp
  with e c show "\<exists>entry.
     active_sessions (handle_start_stream ''client-1'' (Some [(''languages'', JArr [JStr ''fr''])]) initial_world) ''client-1'' = Some entry \<and>
     config entry = Some \<lparr>speaker_name = JStr [], partial_results = JBool True, languages = JArr [JStr ''fr''],
               code_switching = JBool False, custom_vocabulary = JArr []\<rparr>"
    by blast
qed

section \<open>Failure of the handshake\<close>

lemma str_nat_401: "str_nat 401 = ''401''"
  by (simp add: str_nat.simps digit_char_def)

text \<open>
  Claim C2, as amended. When the request of \<^verbatim>\<open>start_gladia_session\<close> is answered with an
  HTTP error status, the thread creates no connection object, emits exactly one
  \<^verbatim>\<open>error\<close> event to the client, whose message contains the status code and the body of
  the response, and leaves the registry exactly as it was: it removes no entry, and the
  entry of the client, if there is one, is the same as before the failure.
\<close>

theorem handshake_http_error:
  assumes "build_payload a = Inr request"
  shows "\<exists>w'. start_gladia_session a (HTTPError e_text status_code response_text) w = Inr w' \<and>
     sockets w' = sockets w \<and>
     active_sessions w' = active_sessions w \<and>
     posted w' = posted w @ [request] \<and>
     emitted w w' =
       [\<lparr>event = ''error'',
         payload = JObj [(''message'',
            JStr (''Failed to create session: '' @ str_nat status_code @ '' - '' @ response_text))],
         room = t_client a\<rparr>]"
  using assms by (simp add: start_gladia_session_def Let_def emit_def print_def emitted_def)

lemma demo_payload: "build_payload demo_thread = Inr demo_request"
  by (simp add: build_payload_def demo_thread_def demo_request_def nonempty_def Let_def)

theorem handshake_http_error_witness:
  "build_payload demo_thread = Inr demo_request \<and>
   (\<exists>w'. start_gladia_session demo_thread (HTTPError ''401 Client Error'' 401 ''unauthorized'') labelled_world = Inr w' \<and>
     sockets w' = sockets labelled_world \<and>
     active_sessions w' = active_sessions labelled_world \<and>
     posted w' = posted labelled_world @ [demo_request] \<and>
     emitted labelled_world w' =
       [\<lparr>event = ''error'',
         payload = JObj [(''message'', JStr ''Failed to create session: 401 - unauthorized'')],
         room = ''client-1''\<rparr>])"
proof -
  have tc: "t_client demo_thread = ''client-1''" by (simp add: demo_thread_def)
  from handshake_http_error[OF demo_payload, of "''401 Client Error''" 401 "''unauthorized''" labelled_world]
  show ?thesis by (simp add: demo_payload str_nat_401 tc)
qed

text \<open>
  Claim C2 as stated fails: after a start command and a handshake answered with status
  401 the registry entry of the client is still there.
\<close>

theorem handshake_failure_keeps_entry:
  "active_sessions
     (run sample_env initial_world
        [StartStream ''client-1'' None,
         ThreadRuns 0 (HTTPError ''401 Client Error: Unauthorized'' 401 ''unauthorized'')]) ''client-1''
   = Some \<lparr>config = Some \<lparr>speaker_name = JStr [], partial_results = JBool True, languages = JArr [],
               code_switching = JBool False, custom_vocabulary = JArr []\<rparr>, ws = None\<rparr>"
  by (simp add: run_def handle_start_stream_def start_gladia_session_def build_payload_def nonempty_def
       Let_def emit_def print_def dict_get_def initial_world_def)



section \<open>A run with a restart\<close>

lemma started_world_eq:
  "started_world =
     \<lparr>active_sessions =
        [''client-1'' \<mapsto>
           \<lparr>config = Some \<lparr>speaker_name = JStr [], partial_results = JBool True, languages = JArr [],
                            code_switching = JBool False, custom_vocabulary = JArr []\<rparr>,
            ws = None\<rparr>],
      sockets = [],
      outbox = [\<lparr>event = ''stream_started'', payload = JObj [(''status'', JStr ''ready'')], room = ''client-1''\<rparr>],
      stdout = [LogStartStream ''client-1'',
                LogConfig (JStr []) (JBool True) (JArr []) (JBool False)],
      threads = [demo_thread],
      posted = []\<rparr>"
  by (simp add: started_world_def handle_start_stream_def demo_thread_def
      Let_def emit_def print_def dict_get_def initial_world_def)

lemma start_gladia_session_response:
  assumes "build_payload a = Inr request"
  shows "start_gladia_session a (Response (JObj d)) w =
     Inr (connect_to_gladia_websocket (t_client a) (dict_get d ''url'' JNull)
            (print (LogSessionCreated (dict_get d ''id'' JNull))
               ((print LogCreatingSession w)\<lparr>posted := posted w @ [request]\<rparr>)))"
  using assms by (simp add: start_gladia_session_def Let_def print_def)

lemma connecting_world_eq:
  "connecting_world =
     \<lparr>active_sessions =
        [''client-1'' \<mapsto>
           \<lparr>config = Some \<lparr>speaker_name = JStr [], partial_results = JBool True, languages = JArr [],
                            code_switching = JBool False, custom_vocabulary = JArr []\<rparr>,
            ws = Some 0\<rparr>],
      sockets = [\<lparr>url = JStr ''wss://x'', client = ''client-1'', sock = None, sent = []\<rparr>],
      outbox = [\<lparr>event = ''stream_started'', payload = JObj [(''status'', JStr ''ready'')], room = ''client-1''\<rparr>],
      stdout = [LogStartStream ''client-1'',
                LogConfig (JStr []) (JBool True) (JArr []) (JBool False),
                LogCreatingSession,
                LogSessionCreated (JStr ''s1'')],
      threads = [],
      posted = [demo_request]\<rparr>"
proof -
  have tc: "t_client demo_thread = ''client-1''" by (simp add: demo_thread_def)
  show ?thesis
    unfolding connecting_world_def started_world_eq
    by (simp add: start_gladia_session_response[OF demo_payload] tc connect_to_gladia_websocket_def
        print_def dict_get_def Let_def)
qed

lemma run_Nil: "run E w [] = w"
  by (simp add: run_def)

lemma run_Cons: "run E w (a # as) = run E (step E w a) as"
  by (simp add: run_def)

lemma streaming_world_eq:
  "streaming_world =
     \<lparr>active_sessions =
        [''client-1'' \<mapsto>
           \<lparr>config = Some \<lparr>speaker_name = JStr [], partial_results = JBool True, languages = JArr [],
                            code_switching = JBool False, custom_vocabulary = JArr []\<rparr>,
            ws = Some 0\<rparr>],
      sockets = [\<lparr>url = JStr ''wss://x'', client = ''client-1'', sock = Some True, sent = []\<rparr>],
      outbox = [\<lparr>event = ''stream_started'', payload = JObj [(''status'', JStr ''ready'')], room = ''client-1''\<rparr>],
      stdout = [LogStartStream ''client-1'',
                LogConfig (JStr []) (JBool True) (JArr []) (JBool False),
                LogCreatingSession,
                LogSessionCreated (JStr ''s1''),
                LogConnected],
      threads = [],
      posted = [demo_request]\<rparr>"
  unfolding streaming_world_def connecting_world_eq
  by (simp add: on_open_def print_def)

lemma streaming_world_run:
  "run sample_env initial_world
     [StartStream ''client-1'' None,
      ThreadRuns 0 (Response (JObj [(''id'', JStr ''s1''), (''url'', JStr ''wss://x'')])),
      WsConnected 0] = streaming_world"
  by (simp add: run_Cons run_Nil streaming_world_def connecting_world_def started_world_def)

lemma restart_sockets:
  "sockets (run sample_env streaming_world
        [StartStream ''client-1'' None,
         ThreadRuns 0 (Response (JObj [(''id'', JStr ''s2''), (''url'', JStr ''wss://y'')])),
         WsConnected 1]) =
     [\<lparr>url = JStr ''wss://x'', client = ''client-1'', sock = Some True, sent = []\<rparr>,
      \<lparr>url = JStr ''wss://y'', client = ''client-1'', sock = Some True, sent = []\<rparr>]"
proof -
  have tc: "t_client demo_thread = ''client-1''" by (simp add: demo_thread_def)
  have 1: "step sample_env streaming_world (StartStream ''client-1'' None) =
     streaming_world\<lparr>
       outbox := outbox streaming_world @
         [\<lparr>event = ''stream_started'', payload = JObj [(''status'', JStr ''ready'')], room = ''client-1''\<rparr>],
       stdout := stdout streaming_world @
         [LogStartStream ''client-1'', LogConfig (JStr []) (JBool True) (JArr []) (JBool False)],
       threads := [demo_thread]\<rparr>"
    unfolding streaming_world_eq
    by (simp add: handle_start_stream_def demo_thread_def Let_def emit_def print_def dict_get_def)
  show ?thesis
    unfolding run_Cons run_Nil 1
    unfolding streaming_world_eq
    by (simp add: start_gladia_session_response[OF demo_payload] tc connect_to_gladia_websocket_def
        on_open_def print_def dict_get_def Let_def)
qed

text \<open>
  Claim C1. A second start command of a client that is already streaming opens a second
  connection without closing the first: \<^verbatim>\<open>handle_start_stream\<close> closes nothing,
  and \<^verbatim>\<open>connect_to_gladia_websocket\<close> overwrites the \<^verbatim>\<open>'ws'\<close> slot of the entry. After
  start, handshake, connection, start, handshake, connection, both connection objects
  of the client are open.
\<close>

theorem restart_leaves_two_open_handles:
  "open_handles
     (run sample_env initial_world
        [StartStream ''client-1'' None,
         ThreadRuns 0 (Response (JObj [(''id'', JStr ''s1''), (''url'', JStr ''wss://x'')])),
         WsConnected 0,
         StartStream ''client-1'' None,
         ThreadRuns 0 (Response (JObj [(''id'', JStr ''s2''), (''url'', JStr ''wss://y'')])),
         WsConnected 1]) ''client-1'' = [0, 1]"
proof -
  have "run sample_env initial_world
        [StartStream ''client-1'' None,
         ThreadRuns 0 (Response (JObj [(''id'', JStr ''s1''), (''url'', JStr ''wss://x'')])),
         WsConnected 0,
         StartStream ''client-1'' None,
         ThreadRuns 0 (Response (JObj [(''id'', JStr ''s2''), (''url'', JStr ''wss://y'')])),
         WsConnected 1] =
        run sample_env
          (run sample_env initial_world
            [StartStream ''client-1'' None,
             ThreadRuns 0 (Response (JObj [(''id'', JStr ''s1''), (''url'', JStr ''wss://x'')])),
             WsConnected 0])
          [StartStream ''client-1'' None,
           ThreadRuns 0 (Response (JObj [(''id'', JStr ''s2''), (''url'', JStr ''wss://y'')])),
           WsConnected 1]"
    by (simp only: run_Cons run_Nil)
  then have eq: "run sample_env initial_world
        [StartStream ''client-1'' None,
         ThreadRuns 0 (Response (JObj [(''id'', JStr ''s1''), (''url'', JStr ''wss://x'')])),
         WsConnected 0,
         StartStream ''client-1'' None,
         ThreadRuns 0 (Response (JObj [(''id'', JStr ''s2''), (''url'', JStr ''wss://y'')])),
         WsConnected 1] =
        run sample_env streaming_world
          [StartStream ''client-1'' None,
           ThreadRuns 0 (Response (JObj [(''id'', JStr ''s2''), (''url'', JStr ''wss://y'')])),
           WsConnected 1]"
    by (simp only: streaming_world_run)
  show ?thesis
    unfolding eq open_handles_def restart_sockets
    by simp
qed

section \<open>Teardown\<close>




section \<open>Audio chunks\<close>

lemma emit_fields [simp]:
  "active_sessions (emit ev p r w) = active_sessions w"
  "sockets (emit ev p r w) = sockets w"
  "stdout (emit ev p r w) = stdout w"
  "threads (emit ev p r w) = threads w"
  "posted (emit ev p r w) = posted w"
  "outbox (emit ev p r w) = outbox w @ [\<lparr>event = ev, payload = p, room = r\<rparr>]"
  by (simp_all add: emit_def)

lemma print_fields [simp]:
  "active_sessions (print l w) = active_sessions w"
  "sockets (print l w) = sockets w"
  "outbox (print l w) = outbox w"
  "threads (print l w) = threads w"
  "posted (print l w) = posted w"
  "stdout (print l w) = stdout w @ [l]"
  by (simp_all add: print_def)

text \<open>
  Claim C8, as amended. \<^verbatim>\<open>handle_audio_data\<close> for a client without registry entry only
  prints. With an entry whose connection is absent or not connected it does nothing at
  all, and prints nothing. With a connected connection: if the chunk decodes and the
  send succeeds, the decoded bytes are appended as one binary frame to what was sent on
  that connection and nothing else changes; if the send raises, or the chunk does not
  decode, one \<^verbatim>\<open>error\<close> event is emitted to the client and one line printed, and the
  registry and the connections are as before.
\<close>

theorem audio_forwarding:
  "(active_sessions w c = None \<longrightarrow>
      handle_audio_data dec c data x w = print (LogNoActiveSession c) w) \<and>
   (\<forall>entry. active_sessions w c = Some entry \<and> ws entry = None \<longrightarrow>
      handle_audio_data dec c data x w = w) \<and>
   (\<forall>entry i. active_sessions w c = Some entry \<and> ws entry = Some i \<and>
        \<not> (i < length (sockets w) \<and> sock (sockets w ! i) = Some True) \<longrightarrow>
      handle_audio_data dec c data x w = w) \<and>
   (\<forall>entry i. active_sessions w c = Some entry \<and> ws entry = Some i \<and>
        i < length (sockets w) \<and> sock (sockets w ! i) = Some True \<longrightarrow>
      (\<forall>bs. audio_bytes dec data = Inr bs \<longrightarrow>
         handle_audio_data dec c data None w =
           w\<lparr>sockets := (sockets w)[i := (sockets w ! i)\<lparr>sent := sent (sockets w ! i) @ [bs]\<rparr>]\<rparr> \<and>
         (\<forall>m. handle_audio_data dec c data (Some m) w =
            emit ''error'' (JObj [(''message'', JStr (''Error sending audio: '' @ m))]) c
              (print (LogSendError m) w))) \<and>
      (\<forall>e. audio_bytes dec data = Inl e \<longrightarrow>
         handle_audio_data dec c data x w =
           emit ''error'' (JObj [(''message'', JStr (''Error sending audio: '' @ str_of_error e))]) c
             (print (LogSendError (str_of_error e)) w)))"
  by (simp add: handle_audio_data_def)

lemma sample_audio: "audio_bytes (base64_b64decode sample_env) [(''audio'', ''AAE='')] = Inr [0, 1]"
  by (simp add: audio_bytes_def sample_env_def)

theorem audio_forwarding_witness:
  "active_sessions initial_world ''client-1'' = None \<and>
   handle_audio_data (base64_b64decode sample_env) ''client-1'' [(''audio'', ''AAE='')] None initial_world =
     print (LogNoActiveSession ''client-1'') initial_world \<and>
   (\<exists>entry. active_sessions labelled_world ''client-1'' = Some entry \<and> ws entry = None) \<and>
   handle_audio_data (base64_b64decode sample_env) ''client-1'' [(''audio'', ''AAE='')] None labelled_world =
     labelled_world \<and>
   (\<exists>entry. active_sessions connecting_world ''client-1'' = Some entry \<and> ws entry = Some 0) \<and>
   sock (sockets connecting_world ! 0) = None \<and>
   handle_audio_data (base64_b64decode sample_env) ''client-1'' [(''audio'', ''AAE='')] None connecting_world =
     connecting_world \<and>
   (\<exists>entry. active_sessions streaming_world ''client-1'' = Some entry \<and> ws entry = Some 0) \<and>
   sock (sockets streaming_world ! 0) = Some True \<and>
   audio_bytes (base64_b64decode sample_env) [(''audio'', ''AAE='')] = Inr [0, 1] \<and>
   handle_audio_data (base64_b64decode sample_env) ''client-1'' [(''audio'', ''AAE='')] None streaming_world =
     streaming_world\<lparr>sockets :=
       (sockets streaming_world)[0 := (sockets streaming_world ! 0)\<lparr>sent := sent (sockets streaming_world ! 0) @ [[0, 1]]\<rparr>]\<rparr> \<and>
   handle_audio_data (base64_b64decode sample_env) ''client-1'' [(''audio'', ''AAE='')] (Some ''Connection is already closed.'') streaming_world =
     emit ''error'' (JObj [(''message'', JStr ''Error sending audio: Connection is already closed.'')]) ''client-1''
       (print (LogSendError ''Connection is already closed.'') streaming_world) \<and>
   audio_bytes (base64_b64decode sample_env) [(''audio'', ''A'')] = Inl (LibraryError ''Incorrect padding'') \<and>
   handle_audio_data (base64_b64decode sample_env) ''client-1'' [(''audio'', ''A'')] None streaming_world =
     emit ''error'' (JObj [(''message'', JStr ''Error sending audio: Incorrect padding'')]) ''client-1''
       (print (LogSendError ''Incorrect padding'') streaming_world)"
proof -
  let ?dec = "base64_b64decode sample_env"
  let ?E = "\<lambda>h. \<lparr>config = Some \<lparr>speaker_name = JStr [], partial_results = JBool True, languages = JArr [],
                           code_switching = JBool False, custom_vocabulary = JArr []\<rparr>,
           ws = h\<rparr>"
  let ?L = "\<lparr>config = Some \<lparr>speaker_name = JStr ''Alice'', partial_results = JBool True, languages = JArr [],
                           code_switching = JBool False, custom_vocabulary = JArr []\<rparr>,
           ws = None\<rparr>"
  have n: "active_sessions initial_world ''client-1'' = None"
    by (simp add: initial_world_def)
  note 1 = audio_forwarding[of initial_world "''client-1''" ?dec "[(''audio'', ''AAE='')]" None,
      THEN conjunct1, THEN mp, OF n]
  have l: "active_sessions labelled_world ''client-1'' = Some ?L \<and> ws ?L = None"
    by (simp add: labelled_world_entry)
  note 2 = audio_forwarding[of labelled_world "''client-1''" ?dec "[(''audio'', ''AAE='')]" None,
      THEN conjunct2, THEN conjunct1, THEN spec, THEN mp, OF l]
  have c: "active_sessions connecting_world ''client-1'' = Some (?E (Some 0)) \<and> ws (?E (Some 0)) = Some 0 \<and>
      \<not> (0 < length (sockets connecting_world) \<and> sock (sockets connecting_world ! 0) = Some True)"
    by (simp add: connecting_world_eq)
  note 3 = audio_forwarding[of connecting_world "''client-1''" ?dec "[(''audio'', ''AAE='')]" None,
      THEN conjunct2, THEN conjunct2, THEN conjunct1, THEN spec, THEN spec, THEN mp, OF c]
  have s: "active_sessions streaming_world ''client-1'' = Some (?E (Some 0)) \<and> ws (?E (Some 0)) = Some 0 \<and>
     0 < length (sockets streaming_world) \<and> sock (sockets streaming_world ! 0) = Some True"
    by (simp add: streaming_world_eq)
  note D = audio_forwarding[of streaming_world "''client-1''" ?dec
      "[(''audio'', ''AAE='')]" None,
      THEN conjunct2, THEN conjunct2, THEN conjunct2, THEN spec, THEN spec, THEN mp, OF s,
      THEN conjunct1, THEN spec, THEN mp, OF sample_audio]
  note 4 = D[THEN conjunct1]
  from D[THEN conjunct2, THEN spec, of "''Connection is already closed.''"]
  have 5: "handle_audio_data ?dec ''client-1'' [(''audio'', ''AAE='')] (Some ''Connection is already closed.'') streaming_world =
     emit ''error'' (JObj [(''message'', JStr ''Error sending audio: Connection is already closed.'')]) ''client-1''
       (print (LogSendError ''Connection is already closed.'') streaming_world)"
    by simp
  have b: "audio_bytes ?dec [(''audio'', ''A'')] = Inl (LibraryError ''Incorrect padding'')"
    by (simp add: audio_bytes_def sample_env_def)
  from audio_forwarding[of streaming_world "''client-1''" ?dec "[(''audio'', ''A'')]" None,
      THEN conjunct2, THEN conjunct2, THEN conjunct2, THEN spec, THEN spec, THEN mp, OF s,
      THEN conjunct2, THEN spec, THEN mp, OF b]
  have 6: "handle_audio_data ?dec ''client-1'' [(''audio'', ''A'')] None streaming_world =
     emit ''error'' (JObj [(''message'', JStr ''Error sending audio: Incorrect padding'')]) ''client-1''
       (print (LogSendError ''Incorrect padding'') streaming_world)"
    by simp
  from l have l': "\<exists>entry. active_sessions labelled_world ''client-1'' = Some entry \<and> ws entry = None"
    by blast
  from c have c': "\<exists>entry. active_sessions connecting_world ''client-1'' = Some entry \<and> ws entry = Some 0"
    by blast
  have c'': "sock (sockets connecting_world ! 0) = None" by (simp add: connecting_world_eq)
  from s have s': "\<exists>entry. active_sessions streaming_world ''client-1'' = Some entry \<and> ws entry = Some 0"
    by blast
  from s have s'': "sock (sockets streaming_world ! 0) = Some True" by simp
  from n 1 l' 2 c' c'' 3 s' s'' sample_audio 4 5 b 6 show ?thesis by (intro conjI)
qed

text \<open>
  Claim C8 as stated fails: for a client whose entry has no connection yet the call
  prints nothing, and for a streaming client a chunk without the \<^verbatim>\<open>audio\<close> key forwards
  no frame and emits an \<^verbatim>\<open>error\<close> event.
\<close>

theorem audio_before_connection_is_silent:
  "active_sessions labelled_world ''client-1'' \<noteq> None \<and>
   handle_audio_data (base64_b64decode sample_env) ''client-1'' [(''audio'', ''AAE='')] None labelled_world =
     labelled_world \<and>
   sent (sockets (handle_audio_data (base64_b64decode sample_env) ''client-1'' [] None streaming_world) ! 0) = [] \<and>
   emitted streaming_world
     (handle_audio_data (base64_b64decode sample_env) ''client-1'' [] None streaming_world) =
     [\<lparr>event = ''error'',
       payload = JObj [(''message'', JStr (''Error sending audio: '' @ quoted ''audio''))],
       room = ''client-1''\<rparr>]"
proof -
  have a: "handle_audio_data (base64_b64decode sample_env) ''client-1'' [] None streaming_world =
      emit ''error'' (JObj [(''message'', JStr (''Error sending audio: '' @ quoted ''audio''))]) ''client-1''
              (print (LogSendError (quoted ''audio'')) streaming_world)"
    by (simp add: handle_audio_data_def audio_bytes_def streaming_world_eq)
  have b: "sent (sockets streaming_world ! 0) = []"
    by (simp add: streaming_world_eq)
  have c: "handle_audio_data (base64_b64decode sample_env) ''client-1'' [(''audio'', ''AAE='')] None labelled_world =
     labelled_world"
    by (simp add: handle_audio_data_def labelled_world_entry)
  show ?thesis
    unfolding a c using b
    by (simp add: labelled_world_entry)
qed

section \<open>Malformed frames\<close>

lemma forward_frames_append:
  "forward_frames loads c w (xs @ ys) = forward_frames loads c (forward_frames loads c w xs) ys"
  by (induction xs arbitrary: w) simp_all

lemma stdout_erased:
  assumes "w1\<lparr>stdout := []\<rparr> = w2\<lparr>stdout := []\<rparr>"
  shows "w2 = w1\<lparr>stdout := stdout w2\<rparr>"
  using assms by (cases w1, cases w2) simp

lemma on_message_stdout:
  "(on_message loads c (w\<lparr>stdout := s\<rparr>) msg)\<lparr>stdout := []\<rparr> = (on_message loads c w msg)\<lparr>stdout := []\<rparr>"
proof (cases "\<exists>d dd u. loads msg = Inr (JObj d) \<and> dict_get d ''type'' JNull = JStr ''transcript'' \<and>
        dict_get d ''data'' (JObj []) = JObj dd \<and> dict_get dd ''utterance'' (JObj []) = JObj u \<and>
        truthy (dict_get u ''text'' (JStr []))")
  case True
  then obtain d dd u where f: "loads msg = Inr (JObj d)" "dict_get d ''type'' JNull = JStr ''transcript''"
      "dict_get d ''data'' (JObj []) = JObj dd" "dict_get dd ''utterance'' (JObj []) = JObj u"
      "truthy (dict_get u ''text'' (JStr []))"
    by blast
  show ?thesis
    unfolding on_message_transcript[of loads msg d dd u, OF f]
    by (simp add: emit_def print_def)
next
  case False
  from on_message_quiet[of loads msg c w] False
  have a: "(on_message loads c w msg)\<lparr>stdout := []\<rparr> = w\<lparr>stdout := []\<rparr>"
    by (auto simp add: print_def)
  from on_message_quiet[of loads msg c "w\<lparr>stdout := s\<rparr>"] False
  have b: "(on_message loads c (w\<lparr>stdout := s\<rparr>) msg)\<lparr>stdout := []\<rparr> = w\<lparr>stdout := []\<rparr>"
    by (auto simp add: print_def)
  from a b show ?thesis by simp
qed

lemma forward_frames_stdout:
  "(forward_frames loads c (w\<lparr>stdout := s\<rparr>) ms)\<lparr>stdout := []\<rparr> = (forward_frames loads c w ms)\<lparr>stdout := []\<rparr>"
proof (induction ms arbitrary: w s)
  case Nil
  show ?case by simp
next
  case (Cons m ms)
  from stdout_erased[OF on_message_stdout[where loads = loads and c = c and w = w and s = s and msg = m, symmetric]]
  obtain s1 where "on_message loads c (w\<lparr>stdout := s\<rparr>) m = (on_message loads c w m)\<lparr>stdout := s1\<rparr>"
    by blast
  with Cons.IH[where w = "on_message loads c w m" and s = s1] show ?case by simp
qed

lemma on_message_active_sessions [simp]:
  "active_sessions (on_message loads c w msg) = active_sessions w"
proof (cases "\<exists>d dd u. loads msg = Inr (JObj d) \<and> dict_get d ''type'' JNull = JStr ''transcript'' \<and>
        dict_get d ''data'' (JObj []) = JObj dd \<and> dict_get dd ''utterance'' (JObj []) = JObj u \<and>
        truthy (dict_get u ''text'' (JStr []))")
  case True
  then obtain d dd u where f: "loads msg = Inr (JObj d)" "dict_get d ''type'' JNull = JStr ''transcript''"
      "dict_get d ''data'' (JObj []) = JObj dd" "dict_get dd ''utterance'' (JObj []) = JObj u"
      "truthy (dict_get u ''text'' (JStr []))"
    by blast
  show ?thesis
    unfolding on_message_transcript[of loads msg d dd u, OF f] by simp
next
  case False
  from on_message_quiet[of loads msg c w] False show ?thesis by auto
qed

lemma on_message_outbox:
  "outbox (on_message loads c w msg) = outbox w @ emitted w (on_message loads c w msg)"
proof (cases "\<exists>d dd u. loads msg = Inr (JObj d) \<and> dict_get d ''type'' JNull = JStr ''transcript'' \<and>
        dict_get d ''data'' (JObj []) = JObj dd \<and> dict_get dd ''utterance'' (JObj []) = JObj u \<and>
        truthy (dict_get u ''text'' (JStr []))")
  case True
  then obtain d dd u where f: "loads msg = Inr (JObj d)" "dict_get d ''type'' JNull = JStr ''transcript''"
      "dict_get d ''data'' (JObj []) = JObj dd" "dict_get dd ''utterance'' (JObj []) = JObj u"
      "truthy (dict_get u ''text'' (JStr []))"
    by blast
  show ?thesis
    unfolding on_message_transcript[of loads msg d dd u, OF f] by simp
next
  case False
  from on_message_quiet[of loads msg c w] False show ?thesis by auto
qed

lemma on_message_emitted_cong:
  assumes "active_sessions w1 = active_sessions w2"
  shows "emitted w1 (on_message loads c w1 msg) = emitted w2 (on_message loads c w2 msg)"
proof (cases "\<exists>d dd u. loads msg = Inr (JObj d) \<and> dict_get d ''type'' JNull = JStr ''transcript'' \<and>
        dict_get d ''data'' (JObj []) = JObj dd \<and> dict_get dd ''utterance'' (JObj []) = JObj u \<and>
        truthy (dict_get u ''text'' (JStr []))")
  case True
  then obtain d dd u where f: "loads msg = Inr (JObj d)" "dict_get d ''type'' JNull = JStr ''transcript''"
      "dict_get d ''data'' (JObj []) = JObj dd" "dict_get dd ''utterance'' (JObj []) = JObj u"
      "truthy (dict_get u ''text'' (JStr []))"
    by blast
  show ?thesis
    unfolding on_message_transcript[of loads msg d dd u, OF f] using assms by simp
next
  case False
  from on_message_quiet[of loads msg c w1] False
  have 1: "emitted w1 (on_message loads c w1 msg) = []" by auto
  from on_message_quiet[of loads msg c w2] False
  have 2: "emitted w2 (on_message loads c w2 msg) = []" by auto
  from 1 2 show ?thesis by simp
qed

lemma forward_frames_active_sessions [simp]:
  "active_sessions (forward_frames loads c w ms) = active_sessions w"
  by (induction ms arbitrary: w) simp_all

lemma forward_frames_outbox:
  "outbox (forward_frames loads c w ms) = outbox w @ emitted w (forward_frames loads c w ms)"
proof (induction ms arbitrary: w)
  case Nil
  show ?case by simp
next
  case (Cons fr ms)
  from Cons.IH[of "on_message loads c w fr"] on_message_outbox[of loads c w fr]
  obtain es where "outbox (forward_frames loads c w (fr # ms)) = outbox w @ es"
    by simp
  then show ?case by (simp add: emitted_def)
qed

lemma emitted_append:
  assumes "outbox b = outbox a @ x" and "outbox c = outbox b @ y"
  shows "emitted a c = emitted a b @ emitted b c"
  using assms by (simp add: emitted_def)

lemma forward_frames_emitted:
  assumes "active_sessions w' = active_sessions w"
  shows "emitted w' (forward_frames loads c w' ms) =
         concat (map (\<lambda>fr. emitted w (on_message loads c w fr)) ms)"
  using assms
proof (induction ms arbitrary: w')
  case Nil
  show ?case by simp
next
  case (Cons fr ms)
  let ?w1 = "on_message loads c w' fr"
  have a: "active_sessions ?w1 = active_sessions w" using Cons.prems by simp
  have "emitted w' (forward_frames loads c w' (fr # ms)) =
        emitted w' ?w1 @ emitted ?w1 (forward_frames loads c ?w1 ms)"
    using emitted_append[OF on_message_outbox[of loads c w' fr] forward_frames_outbox[of loads c ?w1 ms]]
    by simp
  also have "emitted w' ?w1 = emitted w (on_message loads c w fr)"
    by (rule on_message_emitted_cong[OF Cons.prems])
  also have "emitted ?w1 (forward_frames loads c ?w1 ms) =
        concat (map (\<lambda>fr. emitted w (on_message loads c w fr)) ms)"
    by (rule Cons.IH[OF a])
  finally show ?case by simp
qed

text \<open>
  Claim C4. A frame that \<^verbatim>\<open>json.loads\<close> rejects is absorbed by \<^verbatim>\<open>on_message\<close> of
  \<^verbatim>\<open>app.py\<close>: the handler returns normally, having printed one line and changed nothing
  else. The event-forward path goes on. A sequence of frames with the malformed frame
  anywhere in it ends in the state that the sequence without it ends in, printed lines
  apart. The events it delivers are, in order, the events of each of the other frames,
  those after the malformed frame included. And a transcript frame with a non-empty
  text that comes right after the malformed frame is delivered as one \<^verbatim>\<open>transcript\<close>
  event with its fields.
\<close>

theorem malformed_frame_absorbed:
  assumes "loads bad = Inl m"
  shows "on_message loads c w bad = print (LogParseError m) w \<and>
         (\<exists>s'. forward_frames loads c w (before @ bad # after) =
                (forward_frames loads c w (before @ after))\<lparr>stdout := s'\<rparr>) \<and>
         emitted w (forward_frames loads c w (before @ bad # after)) =
           concat (map (\<lambda>fr. emitted w (on_message loads c w fr)) (before @ after)) \<and>
         (\<forall>d dd u t.
            loads good = Inr (JObj d) \<and> dict_get d ''type'' JNull = JStr ''transcript'' \<and>
            dict_get d ''data'' (JObj []) = JObj dd \<and> dict_get dd ''utterance'' (JObj []) = JObj u \<and>
            dict_get u ''text'' (JStr []) = JStr t \<and> t \<noteq> [] \<longrightarrow>
            (\<exists>display_name.
               emitted (forward_frames loads c w (before @ [bad]))
                       (forward_frames loads c w (before @ [bad, good])) =
                 [\<lparr>event = ''transcript'',
                   payload = JObj [(''speaker'', dict_get u ''speaker'' (JInt 0)),
                                   (''text'', JStr t),
                                   (''is_final'', dict_get dd ''is_final'' (JBool False)),
                                   (''speaker_name'', display_name),
                                   (''timestamp'', dict_get u ''start'' JNull),
                                   (''end_time'', dict_get u ''end'' JNull)],
                   room = c\<rparr>]))"
proof -
  have 1: "on_message loads c w' bad = print (LogParseError m) w'" for w'
    using assms by (rule on_message_malformed)
  have "(forward_frames loads c w (before @ bad # after))\<lparr>stdout := []\<rparr> =
        (forward_frames loads c w (before @ after))\<lparr>stdout := []\<rparr>"
    by (simp add: forward_frames_append 1 print_def forward_frames_stdout)
  from stdout_erased[OF this[symmetric]]
  have 2: "\<exists>s'. forward_frames loads c w (before @ bad # after) =
                (forward_frames loads c w (before @ after))\<lparr>stdout := s'\<rparr>"
    by blast
  have b: "emitted w (on_message loads c w bad) = []"
    by (simp add: 1)
  have 3: "emitted w (forward_frames loads c w (before @ bad # after)) =
           concat (map (\<lambda>fr. emitted w (on_message loads c w fr)) (before @ after))"
    by (simp add: forward_frames_emitted[of w w] b)
  have 4: "\<exists>display_name.
               emitted (forward_frames loads c w (before @ [bad]))
                       (forward_frames loads c w (before @ [bad, good])) =
                 [\<lparr>event = ''transcript'',
                   payload = JObj [(''speaker'', dict_get u ''speaker'' (JInt 0)),
                                   (''text'', JStr t),
                                   (''is_final'', dict_get dd ''is_final'' (JBool False)),
                                   (''speaker_name'', display_name),
                                   (''timestamp'', dict_get u ''start'' JNull),
                                   (''end_time'', dict_get u ''end'' JNull)],
                   room = c\<rparr>]"
    if g: "loads good = Inr (JObj d)" "dict_get d ''type'' JNull = JStr ''transcript''"
      "dict_get d ''data'' (JObj []) = JObj dd" "dict_get dd ''utterance'' (JObj []) = JObj u"
      and t: "dict_get u ''text'' (JStr []) = JStr t" "t \<noteq> []"
    for d dd u t
  proof -
    from t have tr: "truthy (dict_get u ''text'' (JStr []))" by simp
    have "forward_frames loads c w (before @ [bad, good]) =
          on_message loads c (forward_frames loads c w (before @ [bad])) good"
      by (simp add: forward_frames_append)
    then show ?thesis
      unfolding on_message_transcript[of loads good d dd u, OF g tr]
      using t by simp
  qed
  from 1 2 3 4 show ?thesis by blast
qed


theorem malformed_frame_absorbed_witness:
  "sample_loads ''{oops'' = Inl ''Expecting value: line 1 column 1 (char 0)'' \<and>
   on_message sample_loads ''client-1'' initial_world ''{oops'' =
     print (LogParseError ''Expecting value: line 1 column 1 (char 0)'') initial_world \<and>
   (\<exists>s'. forward_frames sample_loads ''client-1'' initial_world ([frame_speech_start] @ ''{oops'' # [frame_he]) =
          (forward_frames sample_loads ''client-1'' initial_world ([frame_speech_start] @ [frame_he]))\<lparr>stdout := s'\<rparr>) \<and>
   emitted initial_world
     (forward_frames sample_loads ''client-1'' initial_world ([frame_speech_start] @ ''{oops'' # [frame_he])) =
     [\<lparr>event = ''transcript'',
       payload = JObj [(''speaker'', JInt 0), (''text'', JStr ''he''), (''is_final'', JBool False),
                       (''speaker_name'', JNull),
                       (''timestamp'', JFloat (1 / 10)), (''end_time'', JFloat (4 / 10))],
       room = ''client-1''\<rparr>] \<and>
   (\<exists>display_name.
      emitted (forward_frames sample_loads ''client-1'' initial_world ([frame_speech_start] @ [''{oops'']))
              (forward_frames sample_loads ''client-1'' initial_world ([frame_speech_start] @ [''{oops'', frame_he])) =
        [\<lparr>event = ''transcript'',
          payload = JObj [(''speaker'', JInt 0), (''text'', JStr ''he''), (''is_final'', JBool False),
                          (''speaker_name'', display_name),
                          (''timestamp'', JFloat (1 / 10)), (''end_time'', JFloat (4 / 10))],
          room = ''client-1''\<rparr>])"
proof -
  let ?u = "[(''text'', JStr ''he''), (''speaker'', JInt 0),
             (''start'', JFloat (1 / 10)), (''end'', JFloat (4 / 10))]"
  let ?dd = "[(''is_final'', JBool False), (''utterance'', JObj ?u)]"
  let ?d = "[(''type'', JStr ''transcript''), (''data'', JObj ?dd)]"
  have l: "sample_loads ''{oops'' = Inl ''Expecting value: line 1 column 1 (char 0)''"
    by (simp add: sample_loads_def frame_speech_start_def frame_he_def frame_blank_def frame_error_def)
  have g: "sample_loads frame_he = Inr (JObj ?d) \<and> dict_get ?d ''type'' JNull = JStr ''transcript'' \<and>
      dict_get ?d ''data'' (JObj []) = JObj ?dd \<and> dict_get ?dd ''utterance'' (JObj []) = JObj ?u \<and>
      dict_get ?u ''text'' (JStr []) = JStr ''he'' \<and> ''he'' \<noteq> []"
    by (simp add: sample_loads_def dict_get_def)
  note T = malformed_frame_absorbed[where loads = sample_loads and bad = "''{oops''" and good = frame_he
      and before = "[frame_speech_start]" and after = "[frame_he]" and c = "''client-1''"
      and w = initial_world, OF l]
  note T1 = T[THEN conjunct1]
  note T2 = T[THEN conjunct2, THEN conjunct1]
  note T3 = T[THEN conjunct2, THEN conjunct2, THEN conjunct1]
  note T4 = T[THEN conjunct2, THEN conjunct2, THEN conjunct2, THEN spec, THEN spec, THEN spec, THEN spec,
      THEN mp, OF g]
  have q: "emitted initial_world (on_message sample_loads ''client-1'' initial_world frame_speech_start) = []"
    by (simp add: on_message_def on_message_body_def sample_loads_def dict_get_def
      frame_speech_start_def frame_he_def frame_blank_def)
  have h: "emitted initial_world (on_message sample_loads ''client-1'' initial_world frame_he) =
     [\<lparr>event = ''transcript'',
       payload = JObj [(''speaker'', JInt 0), (''text'', JStr ''he''), (''is_final'', JBool False),
                       (''speaker_name'', JNull),
                       (''timestamp'', JFloat (1 / 10)), (''end_time'', JFloat (4 / 10))],
       room = ''client-1''\<rparr>]"
    by (simp add: on_message_def on_message_body_def sample_loads_def dict_get_def initial_world_def
        print_def emit_def emitted_def)
  from T3 have 3: "emitted initial_world
     (forward_frames sample_loads ''client-1'' initial_world ([frame_speech_start] @ ''{oops'' # [frame_he])) =
     [\<lparr>event = ''transcript'',
       payload = JObj [(''speaker'', JInt 0), (''text'', JStr ''he''), (''is_final'', JBool False),
                       (''speaker_name'', JNull),
                       (''timestamp'', JFloat (1 / 10)), (''end_time'', JFloat (4 / 10))],
       room = ''client-1''\<rparr>]"
    by (simp only: append.simps map_append list.map concat.simps q h append_Nil2)
  from T4 have 4: "\<exists>display_name.
      emitted (forward_frames sample_loads ''client-1'' initial_world ([frame_speech_start] @ [''{oops'']))
              (forward_frames sample_loads ''client-1'' initial_world ([frame_speech_start] @ [''{oops'', frame_he])) =
        [\<lparr>event = ''transcript'',
          payload = JObj [(''speaker'', JInt 0), (''text'', JStr ''he''), (''is_final'', JBool False),
                          (''speaker_name'', display_name),
                          (''timestamp'', JFloat (1 / 10)), (''end_time'', JFloat (4 / 10))],
          room = ''client-1''\<rparr>]"
    by (simp add: dict_get_def)
  from l T1 T2 3 4 show ?thesis by (intro conjI)
qed

end
